theory Spec2Isabelle
  imports Main "HOL-Library.AList"
begin

section \<open>Data model\<close>

text \<open>
  The store is the relational database behind the Prisma client. Each table is an
  association list from primary key to row, in insertion order, so that
  \<^verbatim>\<open>findFirst\<close> is the first matching row. Timestamps are milliseconds as integers;
  \<^verbatim>\<open>new Date()\<close> is the parameter \<open>now\<close> of each handler. Money is in cents.
\<close>

type_synonym id = string
type_synonym date = int
type_synonym 'a table = "(id \<times> 'a) list"

datatype OrderStatus = Pending | Paid | Ready | Collected | Cancelled | Refunded

datatype PaymentStatus = PaymentPending | PaymentSucceeded | PaymentFailed | PaymentRefunded

record Bag =
  restaurantId :: id
  title :: string
  priceCurrent :: int
  quantityTotal :: int
  quantityRemaining :: int
  isActive :: bool
  isSoldOut :: bool
  pickupStart :: date
  pickupEnd :: date

record Order =
  orderNumber :: string
  userId :: id
  bagId :: id
  restaurantId :: id
  quantity :: int
  subtotal :: int
  platformFee :: int
  total :: int
  status :: OrderStatus
  pickupStart :: date
  pickupEnd :: date
  qrCode :: string
  qrScannedAt :: "date option"
  cancelledAt :: "date option"
  cancellationReason :: "string option"
  cancelledById :: "id option"

record Payment =
  orderId :: id
  amount :: int
  pay_method :: string
  status :: PaymentStatus
  stripePaymentIntentId :: "string option"
  stripeChargeId :: "string option"
  paidAt :: "date option"
  failedAt :: "date option"
  failureReason :: "string option"
  refundedAt :: "date option"
  refundAmount :: "int option"
  stripeRefundId :: "string option"
  cardLast4 :: "string option"
  cardBrand :: "string option"

record User =
  email :: string
  name :: "string option"
  loyaltyPoints :: int

record Restaurant =
  ownerId :: id
  name :: string

record db =
  bags :: "Bag table"
  orders :: "Order table"
  payments :: "Payment table"
  users :: "User table"
  restaurants :: "Restaurant table"

text \<open>
  Errors are values. \<open>ApiError\<close> is the class of \<^verbatim>\<open>src/types/index.ts\<close> (message and
  HTTP status); \<open>PrismaError\<close> carries the client's error code (P2025 record not found,
  P2002 unique constraint, P2003 foreign key); \<open>TypeError\<close> is the JavaScript runtime
  error; \<open>AxiosError\<close> is a failed call to the payment provider.
\<close>

datatype error =
  ApiError string nat
| PrismaError string
| TypeError string
| AxiosError string

datatype deep_link =
  PaymentErrorLink string
| PaymentSuccessLink id string
| PaymentPendingLink id
| PaymentCancelledLink
| PaymentFailedLink

datatype response =
  Json nat string
| OrderCreated id Order string string
| OrderData nat id OrderStatus
| Redirect deep_link

text \<open>
  A handler returns what it answered, or the exception that escaped it, together with
  the store as committed at that point.
\<close>

type_synonym outcome = "(error + response) \<times> db"

section \<open>Prisma operations\<close>

definition update_row :: "id \<Rightarrow> ('a \<Rightarrow> 'a) \<Rightarrow> 'a table \<Rightarrow> error + 'a table" where
  "update_row k f t =
     (case map_of t k of
        None \<Rightarrow> Inl (PrismaError ''P2025'')
      | Some v \<Rightarrow> Inr (AList.update k (f v) t))"

definition create_row :: "id \<Rightarrow> 'a \<Rightarrow> 'a table \<Rightarrow> error + 'a table" where
  "create_row k v t =
     (case map_of t k of
        None \<Rightarrow> Inr (t @ [(k, v)])
      | Some _ \<Rightarrow> Inl (PrismaError ''P2002''))"

definition findFirst :: "('a \<Rightarrow> bool) \<Rightarrow> 'a table \<Rightarrow> (id \<times> 'a) option" where
  "findFirst P t = find (\<lambda>kv. P (snd kv)) t"

text \<open>
  The Prisma schema is not among the sources. The handlers write plain JavaScript numbers
  to the quantity, money and loyalty columns, so these are taken to be Prisma's \<open>Int\<close>,
  a 32-bit signed integer: a write whose value leaves that range is refused with P2020,
  and inside a transaction the refusal rolls the batch back.
\<close>

definition int4 :: "int \<Rightarrow> bool" where
  "int4 n = (- 2147483648 \<le> n \<and> n \<le> 2147483647)"

text \<open>
  A field read from a JSON body is absent (\<^verbatim>\<open>undefined\<close>), \<^verbatim>\<open>null\<close>, or a value. In a
  Prisma \<^verbatim>\<open>where\<close> an undefined value drops the filter and \<^verbatim>\<open>null\<close> selects the rows
  whose column is null; in \<^verbatim>\<open>data\<close> an undefined value leaves the column as it is and
  \<^verbatim>\<open>null\<close> clears it.
\<close>

datatype 'a js = Undefined | Null | Val 'a

fun where_equals :: "'a js \<Rightarrow> 'a option \<Rightarrow> bool" where
  "where_equals Undefined col = True"
| "where_equals Null col = (col = None)"
| "where_equals (Val v) col = (col = Some v)"

fun set_column :: "'a js \<Rightarrow> 'a option \<Rightarrow> 'a option" where
  "set_column Undefined col = col"
| "set_column Null col = None"
| "set_column (Val v) col = Some v"

text \<open>
  \<^verbatim>\<open>order.create\<close>: the primary key, the order number and the QR code are unique
  (\<^verbatim>\<open>findUnique({ where: { qrCode } })\<close> in the scan route relies on the last; the
  order number is unique by the data model).
\<close>

definition order_create :: "id \<Rightarrow> Order \<Rightarrow> db \<Rightarrow> error + db" where
  "order_create oid ord s =
     (if \<not> (int4 (quantity ord) \<and> int4 (subtotal ord) \<and> int4 (platformFee ord) \<and> int4 (total ord))
      then Inl (PrismaError ''P2020'')
      else if findFirst (\<lambda>r. orderNumber r = orderNumber ord \<or> qrCode r = qrCode ord) (orders s) \<noteq> None
      then Inl (PrismaError ''P2002'')
      else case create_row oid ord (orders s) of
             Inl e \<Rightarrow> Inl e
           | Inr os \<Rightarrow> Inr (s\<lparr>orders := os\<rparr>))"

text \<open>
  \<^verbatim>\<open>payment.create\<close>: one payment per order (\<^verbatim>\<open>include: { payment: true }\<close> is a
  single row).
\<close>

definition payment_create :: "id \<Rightarrow> Payment \<Rightarrow> db \<Rightarrow> error + db" where
  "payment_create pid p s =
     (if \<not> int4 (amount p) then Inl (PrismaError ''P2020'')
      else if findFirst (\<lambda>r. orderId r = orderId p) (payments s) \<noteq> None
      then Inl (PrismaError ''P2002'')
      else case create_row pid p (payments s) of
             Inl e \<Rightarrow> Inl e
           | Inr ps \<Rightarrow> Inr (s\<lparr>payments := ps\<rparr>))"

text \<open>
  \<^verbatim>\<open>order.delete\<close>. The Prisma schema is not among the sources, so whether deleting an
  order removes its payment (\<open>onDelete: Cascade\<close>) or is refused while a payment refers
  to it is the parameter \<open>cascade\<close>.
\<close>

definition order_delete :: "bool \<Rightarrow> id \<Rightarrow> db \<Rightarrow> error + db" where
  "order_delete cascade oid s =
     (case map_of (orders s) oid of
        None \<Rightarrow> Inl (PrismaError ''P2025'')
      | Some _ \<Rightarrow>
          if cascade
          then Inr (s\<lparr>orders := AList.delete oid (orders s),
                      payments := filter (\<lambda>kv. orderId (snd kv) \<noteq> oid) (payments s)\<rparr>)
          else if findFirst (\<lambda>r. orderId r = oid) (payments s) \<noteq> None
          then Inl (PrismaError ''P2003'')
          else Inr (s\<lparr>orders := AList.delete oid (orders s)\<rparr>))"

definition update_bag :: "id \<Rightarrow> (Bag \<Rightarrow> Bag) \<Rightarrow> db \<Rightarrow> error + db" where
  "update_bag k f s =
     (case update_row k f (bags s) of Inl e \<Rightarrow> Inl e | Inr t \<Rightarrow> Inr (s\<lparr>bags := t\<rparr>))"

definition update_order :: "id \<Rightarrow> (Order \<Rightarrow> Order) \<Rightarrow> db \<Rightarrow> error + db" where
  "update_order k f s =
     (case update_row k f (orders s) of Inl e \<Rightarrow> Inl e | Inr t \<Rightarrow> Inr (s\<lparr>orders := t\<rparr>))"

definition update_payment :: "id \<Rightarrow> (Payment \<Rightarrow> Payment) \<Rightarrow> db \<Rightarrow> error + db" where
  "update_payment k f s =
     (case update_row k f (payments s) of Inl e \<Rightarrow> Inl e | Inr t \<Rightarrow> Inr (s\<lparr>payments := t\<rparr>))"

definition update_user :: "id \<Rightarrow> (User \<Rightarrow> User) \<Rightarrow> db \<Rightarrow> error + db" where
  "update_user k f s =
     (case update_row k f (users s) of Inl e \<Rightarrow> Inl e | Inr t \<Rightarrow> Inr (s\<lparr>users := t\<rparr>))"

text \<open>
  The ledger's release, as each handler writes it: \<^verbatim>\<open>quantityRemaining: { increment }\<close>
  and \<^verbatim>\<open>isSoldOut: false\<close>; and the loyalty credit,
  \<^verbatim>\<open>loyaltyPoints: { increment: order.quantity }\<close>.
\<close>

definition release :: "int \<Rightarrow> Bag \<Rightarrow> Bag" where
  "release q b = b\<lparr>quantityRemaining := quantityRemaining b + q, isSoldOut := False\<rparr>"

definition release_stock :: "id \<Rightarrow> int \<Rightarrow> db \<Rightarrow> error + db" where
  "release_stock k q s =
     (case map_of (bags s) k of
        None \<Rightarrow> Inl (PrismaError ''P2025'')
      | Some b \<Rightarrow>
          if int4 (quantityRemaining b + q) then update_bag k (release q) s
          else Inl (PrismaError ''P2020''))"

definition credit_loyalty :: "id \<Rightarrow> int \<Rightarrow> db \<Rightarrow> error + db" where
  "credit_loyalty k q s =
     (case map_of (users s) k of
        None \<Rightarrow> Inl (PrismaError ''P2025'')
      | Some u \<Rightarrow>
          if int4 (loyaltyPoints u + q)
          then update_user k (\<lambda>r. r\<lparr>loyaltyPoints := loyaltyPoints r + q\<rparr>) s
          else Inl (PrismaError ''P2020''))"

text \<open>
  \<^verbatim>\<open>prisma.$transaction([...])\<close>: the writes run in order; the first one that throws
  aborts the batch, and the caller keeps the store it started from.
\<close>

fun transaction :: "(db \<Rightarrow> error + db) list \<Rightarrow> db \<Rightarrow> error + db" where
  "transaction [] s = Inr s"
| "transaction (w # ws) s = (case w s of Inl e \<Rightarrow> Inl e | Inr s' \<Rightarrow> transaction ws s')"

section \<open>Payment gateway adapter (services/yoco.ts)\<close>

record CreateCheckoutParams =
  amount :: int
  orderId :: id
  orderNumber :: string
  customerEmail :: "string option"
  customerName :: "string option"
  successUrl :: string
  cancelUrl :: string
  failureUrl :: string
  bagTitle :: string
  restaurantName :: string

record YocoCheckoutResponse =
  checkout_id :: string
  redirectUrl :: string
  checkout_status :: string

text \<open>The provider behind \<^verbatim>\<open>createCheckout\<close>: it answers or the HTTP call throws.\<close>

type_synonym checkout_gateway = "CreateCheckoutParams \<Rightarrow> error + YocoCheckoutResponse"

section \<open>POST /api/v1/orders\<close>

text \<open>
  What the request and the environment supply: the authenticated user, the validated
  body, the clock, and the values the handler draws at random or the database
  generates (order id, QR uuid, order number, payment id).
\<close>

record create_order_request =
  req_sub :: id
  req_bagId :: id
  req_quantity :: int
  req_now :: date
  newOrderId :: id
  uuid :: string
  newOrderNumber :: string
  newPaymentId :: id

record reservation =
  res_order :: Order
  res_bag :: Bag
  res_user :: "User option"
  res_total :: int
  res_subtotal :: int
  res_platformFee :: int

text \<open>The body of the \<^verbatim>\<open>prisma.$transaction(async (tx) => ...)\<close> callback.\<close>

definition reserve_tx :: "create_order_request \<Rightarrow> db \<Rightarrow> error + (reservation \<times> db)" where
  "reserve_tx rq s =
     (case map_of (bags s) (req_bagId rq) of
        None \<Rightarrow> Inl (ApiError ''Bag not found'' 404)
      | Some b \<Rightarrow>
          if \<not> isActive b \<or> isSoldOut b then Inl (ApiError ''Bag is not available'' 400)
          else if quantityRemaining b < req_quantity rq
          then Inl (ApiError ''Not enough bags available'' 400)
          else if req_now rq > Bag.pickupEnd b then Inl (ApiError ''Pickup window has ended'' 400)
          else if \<not> int4 (quantityRemaining b - req_quantity rq) then Inl (PrismaError ''P2020'')
          else
            (case update_bag (req_bagId rq)
                    (\<lambda>r. r\<lparr>quantityRemaining := quantityRemaining r - req_quantity rq,
                            isSoldOut := (quantityRemaining b - req_quantity rq \<le> 0)\<rparr>) s of
               Inl e \<Rightarrow> Inl e
             | Inr s1 \<Rightarrow>
                 (case map_of (bags s1) (req_bagId rq) of
                    None \<Rightarrow> Inl (PrismaError ''P2025'')
                  | Some updatedBag \<Rightarrow>
                      if quantityRemaining updatedBag < 0
                      then Inl (ApiError ''Not enough bags available'' 400)
                      else
                        let usr = map_of (users s1) (req_sub rq);
                            sub_total = priceCurrent b * req_quantity rq;
                            fee = 250;
                            tot = sub_total + fee;
                            qr = ''SAVR-'' @ uuid rq;
                            ord = \<lparr>Order.orderNumber = newOrderNumber rq,
                                   userId = req_sub rq,
                                   bagId = req_bagId rq,
                                   restaurantId = Bag.restaurantId b,
                                   quantity = req_quantity rq,
                                   subtotal = sub_total,
                                   platformFee = fee,
                                   total = tot,
                                   status = Pending,
                                   pickupStart = Bag.pickupStart b,
                                   pickupEnd = Bag.pickupEnd b,
                                   qrCode = qr,
                                   qrScannedAt = None,
                                   cancelledAt = None,
                                   cancellationReason = None,
                                   cancelledById = None\<rparr>
                        in (case order_create (newOrderId rq) ord s1 of
                              Inl e \<Rightarrow> Inl e
                            | Inr s2 \<Rightarrow>
                                Inr (\<lparr>res_order = ord, res_bag = b, res_user = usr, res_total = tot,
                                      res_subtotal = sub_total, res_platformFee = fee\<rparr>, s2)))))"

definition checkout_params :: "string \<Rightarrow> create_order_request \<Rightarrow> reservation \<Rightarrow> db \<Rightarrow> CreateCheckoutParams" where
  "checkout_params APP_URL rq r s =
     \<lparr>CreateCheckoutParams.amount = res_total r,
      orderId = newOrderId rq,
      orderNumber = Order.orderNumber (res_order r),
      customerEmail = map_option email (res_user r),
      customerName = Option.bind (res_user r) User.name,
      successUrl = APP_URL @ ''/api/v1/payments/yoco/success?orderId='' @ newOrderId rq,
      cancelUrl = APP_URL @ ''/api/v1/payments/yoco/cancel?orderId='' @ newOrderId rq,
      failureUrl = APP_URL @ ''/api/v1/payments/yoco/failure?orderId='' @ newOrderId rq,
      bagTitle = title (res_bag r),
      restaurantName =
        (case map_of (restaurants s) (Bag.restaurantId (res_bag r)) of
           None \<Rightarrow> ''Restaurant''
         | Some rest \<Rightarrow> if Restaurant.name rest = [] then ''Restaurant'' else Restaurant.name rest)\<rparr>"

text \<open>The \<^verbatim>\<open>catch\<close> block after the checkout attempt: delete the pending order, answer 500.\<close>

definition checkout_failed :: "bool \<Rightarrow> id \<Rightarrow> db \<Rightarrow> outcome" where
  "checkout_failed cascade oid s =
     (case order_delete cascade oid s of
        Inl e \<Rightarrow> (Inl e, s)
      | Inr s' \<Rightarrow> (Inr (Json 500 ''Failed to create payment checkout''), s'))"

definition create_order :: "bool \<Rightarrow> string \<Rightarrow> checkout_gateway \<Rightarrow> create_order_request \<Rightarrow> db \<Rightarrow> outcome" where
  "create_order cascade APP_URL createCheckout rq s =
     (case reserve_tx rq s of
        Inl e \<Rightarrow> (Inl e, s)
      | Inr (r, s1) \<Rightarrow>
          (case createCheckout (checkout_params APP_URL rq r s1) of
             Inl e \<Rightarrow> checkout_failed cascade (newOrderId rq) s1
           | Inr checkout \<Rightarrow>
               (case payment_create (newPaymentId rq)
                       \<lparr>Payment.orderId = newOrderId rq,
                        amount = res_total r,
                        pay_method = ''card'',
                        status = PaymentPending,
                        stripePaymentIntentId = Some (checkout_id checkout),
                        stripeChargeId = None,
                        paidAt = None,
                        failedAt = None,
                        failureReason = None,
                        refundedAt = None,
                        refundAmount = None,
                        stripeRefundId = None,
                        cardLast4 = None,
                        cardBrand = None\<rparr> s1 of
                  Inl e \<Rightarrow> checkout_failed cascade (newOrderId rq) s1
                | Inr s2 \<Rightarrow>
                    (Inr (OrderCreated (newOrderId rq) (res_order r) (checkout_id checkout) (redirectUrl checkout)), s2))))"

section \<open>POST /api/v1/orders/:id/cancel\<close>

definition cancel_order :: "id \<Rightarrow> id \<Rightarrow> string option \<Rightarrow> date \<Rightarrow> db \<Rightarrow> outcome" where
  "cancel_order sub oid reason now s =
     (case map_of (orders s) oid of
        None \<Rightarrow> (Inr (Json 404 ''Order not found''), s)
      | Some ord \<Rightarrow>
          if userId ord \<noteq> sub then (Inr (Json 403 ''Not authorized''), s)
          else if Order.status ord \<noteq> Pending \<and> Order.status ord \<noteq> Paid
          then (Inr (Json 400 ''Order cannot be cancelled''), s)
          else
            (case transaction
                    [update_order oid
                       (\<lambda>r. r\<lparr>Order.status := Cancelled,
                               cancelledAt := Some now,
                               cancellationReason :=
                                 (case reason of None \<Rightarrow> cancellationReason r | Some x \<Rightarrow> Some x),
                               cancelledById := Some sub\<rparr>),
                     release_stock (Order.bagId ord) (Order.quantity ord)] s of
               Inl e \<Rightarrow> (Inl e, s)
             | Inr s' \<Rightarrow> (Inr (Json 200 ''Order cancelled''), s')))"

section \<open>Business routes: status change and pickup scan\<close>

definition status_of_string :: "string \<Rightarrow> OrderStatus option" where
  "status_of_string x =
     (if x = ''ready'' then Some Ready
      else if x = ''collected'' then Some Collected
      else if x = ''cancelled'' then Some Cancelled
      else None)"

fun status_name :: "OrderStatus \<Rightarrow> string" where
  "status_name Pending = ''pending''"
| "status_name Paid = ''paid''"
| "status_name Ready = ''ready''"
| "status_name Collected = ''collected''"
| "status_name Cancelled = ''cancelled''"
| "status_name Refunded = ''refunded''"

text \<open>\<^verbatim>\<open>restaurant.findUnique({ where: { ownerId } })\<close>\<close>

definition restaurant_of_owner :: "id \<Rightarrow> db \<Rightarrow> (id \<times> Restaurant) option" where
  "restaurant_of_owner sub s = findFirst (\<lambda>r. ownerId r = sub) (restaurants s)"

text \<open>PATCH /api/v1/business/orders/:id/status\<close>

definition business_order_status :: "id \<Rightarrow> id \<Rightarrow> string \<Rightarrow> date \<Rightarrow> db \<Rightarrow> outcome" where
  "business_order_status sub oid new_status now s =
     (case status_of_string new_status of
        None \<Rightarrow> (Inr (Json 400 ''Invalid status''), s)
      | Some st \<Rightarrow>
          (case map_of (orders s) oid of
             None \<Rightarrow> (Inr (Json 404 ''Order not found''), s)
           | Some ord \<Rightarrow>
               if Some (Order.restaurantId ord) \<noteq> map_option fst (restaurant_of_owner sub s)
               then (Inr (Json 404 ''Order not found''), s)
               else
                 (case update_order oid
                         (\<lambda>r. r\<lparr>Order.status := st,
                                 qrScannedAt := (if st = Collected then Some now else qrScannedAt r),
                                 cancelledAt := (if st = Cancelled then Some now else cancelledAt r),
                                 cancelledById := (if st = Cancelled then Some sub else cancelledById r)\<rparr>) s of
                    Inl e \<Rightarrow> (Inl e, s)
                  | Inr s' \<Rightarrow> (Inr (OrderData 200 oid st), s'))))"

text \<open>
  POST /api/v1/business/orders/:id/scan. The code read from the body may be absent;
  \<^verbatim>\<open>!qrCode\<close> also holds of the empty string.
\<close>

definition scan_order :: "id \<Rightarrow> string option \<Rightarrow> date \<Rightarrow> db \<Rightarrow> outcome" where
  "scan_order sub code now s =
     (case code of
        None \<Rightarrow> (Inr (Json 400 ''QR code is required''), s)
      | Some qr \<Rightarrow>
          if qr = [] then (Inr (Json 400 ''QR code is required''), s)
          else
            (case restaurant_of_owner sub s of
               None \<Rightarrow> (Inr (Json 404 ''Restaurant not found''), s)
             | Some (rid, rest) \<Rightarrow>
                 (case findFirst (\<lambda>r. qrCode r = qr) (orders s) of
                    None \<Rightarrow> (Inr (Json 404 ''Invalid QR code''), s)
                  | Some (oid, ord) \<Rightarrow>
                      if Order.restaurantId ord \<noteq> rid
                      then (Inr (Json 403 ''Order belongs to another restaurant''), s)
                      else if Order.status ord \<noteq> Paid \<and> Order.status ord \<noteq> Ready
                      then (Inr (Json 400 (''Order cannot be collected (status: ''
                                             @ status_name (Order.status ord) @ '')'')), s)
                      else
                        (case update_order oid
                                (\<lambda>r. r\<lparr>Order.status := Collected, qrScannedAt := Some now\<rparr>) s of
                           Inl e \<Rightarrow> (Inl e, s)
                         | Inr s' \<Rightarrow> (Inr (OrderData 200 oid Collected), s')))))"

section \<open>Payment routes: redirect callbacks\<close>

definition restoreInventory :: "id \<Rightarrow> db \<Rightarrow> error + db" where
  "restoreInventory oid s =
     (case map_of (orders s) oid of
        None \<Rightarrow> Inr s
      | Some ord \<Rightarrow> release_stock (Order.bagId ord) (Order.quantity ord) s)"

record Card =
  maskedCard :: string
  scheme :: string

record YocoPaymentResponse =
  provider_status :: string
  card :: "Card option"

type_synonym status_gateway = "string \<Rightarrow> error + YocoPaymentResponse"

definition last4 :: "string \<Rightarrow> string" where
  "last4 x = drop (length x - 4) x"

text \<open>The \<^verbatim>\<open>$transaction([...])\<close> of the success redirect.\<close>

definition success_writes :: "id \<Rightarrow> Order \<Rightarrow> id \<Rightarrow> YocoPaymentResponse \<Rightarrow> date \<Rightarrow> (db \<Rightarrow> error + db) list" where
  "success_writes oid ord pid cs now =
     [update_order oid (\<lambda>r. r\<lparr>Order.status := Paid\<rparr>),
      update_payment pid
        (\<lambda>p. p\<lparr>Payment.status := PaymentSucceeded,
                paidAt := Some now,
                cardLast4 := (case card cs of None \<Rightarrow> cardLast4 p | Some c \<Rightarrow> Some (last4 (maskedCard c))),
                cardBrand := (case card cs of None \<Rightarrow> cardBrand p | Some c \<Rightarrow> Some (scheme c))\<rparr>),
      credit_loyalty (userId ord) (Order.quantity ord)]"

text \<open>GET /api/v1/payments/yoco/success\<close>

definition yoco_success :: "status_gateway \<Rightarrow> id option \<Rightarrow> date \<Rightarrow> db \<Rightarrow> outcome" where
  "yoco_success getCheckoutStatus orderId_param now s =
     (case orderId_param of
        None \<Rightarrow> (Inr (Redirect (PaymentErrorLink ''Missing order ID'')), s)
      | Some oid \<Rightarrow>
          if oid = [] then (Inr (Redirect (PaymentErrorLink ''Missing order ID'')), s)
          else
            (case map_of (orders s) oid of
               None \<Rightarrow> (Inr (Redirect (PaymentErrorLink ''Order not found'')), s)
             | Some ord \<Rightarrow>
                 (case findFirst (\<lambda>p. Payment.orderId p = oid) (payments s) of
                    None \<Rightarrow> (Inr (Redirect (PaymentPendingLink oid)), s)
                  | Some (pid, pay) \<Rightarrow>
                      (case stripePaymentIntentId pay of
                         None \<Rightarrow> (Inr (Redirect (PaymentPendingLink oid)), s)
                       | Some checkoutId \<Rightarrow>
                           if checkoutId = [] then (Inr (Redirect (PaymentPendingLink oid)), s)
                           else
                             (case getCheckoutStatus checkoutId of
                                Inl e \<Rightarrow> (Inr (Redirect (PaymentErrorLink ''Payment verification failed'')), s)
                              | Inr checkoutStatus \<Rightarrow>
                                  if provider_status checkoutStatus = ''successful''
                                  then
                                    (case transaction (success_writes oid ord pid checkoutStatus now) s of
                                       Inl e \<Rightarrow> (Inr (Redirect (PaymentErrorLink ''Payment verification failed'')), s)
                                     | Inr s' \<Rightarrow>
                                         (Inr (Redirect (PaymentSuccessLink oid (Order.orderNumber ord))), s'))
                                  else (Inr (Redirect (PaymentPendingLink oid)), s))))))"

text \<open>
  GET /api/v1/payments/yoco/cancel and /yoco/failure: the two writes are separate
  statements, not a transaction, and the \<^verbatim>\<open>catch\<close> swallows whichever throws.
\<close>

definition restore_and_delete :: "bool \<Rightarrow> id option \<Rightarrow> db \<Rightarrow> db" where
  "restore_and_delete cascade orderId_param s =
     (case orderId_param of
        None \<Rightarrow> s
      | Some oid \<Rightarrow>
          if oid = [] then s
          else
            (case restoreInventory oid s of
               Inl e \<Rightarrow> s
             | Inr s1 \<Rightarrow>
                 (case order_delete cascade oid s1 of
                    Inl e \<Rightarrow> s1
                  | Inr s2 \<Rightarrow> s2)))"

definition yoco_cancel :: "bool \<Rightarrow> id option \<Rightarrow> db \<Rightarrow> outcome" where
  "yoco_cancel cascade orderId_param s =
     (Inr (Redirect PaymentCancelledLink), restore_and_delete cascade orderId_param s)"

definition yoco_failure :: "bool \<Rightarrow> id option \<Rightarrow> db \<Rightarrow> outcome" where
  "yoco_failure cascade orderId_param s =
     (Inr (Redirect PaymentFailedLink), restore_and_delete cascade orderId_param s)"

section \<open>Webhook signature (services/yoco.ts)\<close>

text \<open>
  JavaScript passes \<^verbatim>\<open>undefined\<close> for an argument the caller leaves out, so each
  parameter is optional here. SHA-256 and base64 are the parameters \<open>hmac\<close> (key bytes
  and content to the base64 digest) and \<open>b64\<close> (base64 text to bytes).
\<close>

fun split_on :: "char \<Rightarrow> string \<Rightarrow> string list" where
  "split_on d [] = [[]]"
| "split_on d (c # cs) =
     (if c = d then [] # split_on d cs
      else (case split_on d cs of [] \<Rightarrow> [[c]] | w # ws \<Rightarrow> (c # w) # ws))"

fun replace_first :: "string \<Rightarrow> string \<Rightarrow> string \<Rightarrow> string" where
  "replace_first pat rep [] = (if pat = [] then rep else [])"
| "replace_first pat rep (c # cs) =
     (if take (length pat) (c # cs) = pat then rep @ drop (length pat) (c # cs)
      else c # replace_first pat rep cs)"

definition template :: "string option \<Rightarrow> string" where
  "template x = (case x of None \<Rightarrow> ''undefined'' | Some v \<Rightarrow> v)"

definition second_field :: "string \<Rightarrow> string option" where
  "second_field x = (case split_on CHR '','' x of a # b # rest \<Rightarrow> Some b | _ \<Rightarrow> None)"

definition verifyWebhookSignature ::
  "(string \<Rightarrow> string \<Rightarrow> string) \<Rightarrow> (string \<Rightarrow> string) \<Rightarrow>
   string option \<Rightarrow> string option \<Rightarrow> string option \<Rightarrow> string option \<Rightarrow> string option \<Rightarrow> error + bool" where
  "verifyWebhookSignature hmac b64 payload signature webhookId webhookTimestamp webhookSecret =
     (case webhookSecret of
        None \<Rightarrow> Inl (TypeError ''Cannot read properties of undefined (reading 'replace')'')
      | Some secret \<Rightarrow>
          let secretBytes = b64 (replace_first ''whsec_'' [] secret);
              signedContent = template webhookId @ ''.'' @ template webhookTimestamp @ ''.'' @ template payload;
              expectedSignature = hmac secretBytes signedContent
          in (case signature of
                None \<Rightarrow> Inl (TypeError ''Cannot read properties of undefined (reading 'split')'')
              | Some sigs \<Rightarrow>
                  Inr (list_ex
                         (\<lambda>x. case x of None \<Rightarrow> False | Some v \<Rightarrow> b64 v = b64 expectedSignature)
                         (map second_field (split_on CHR '' '' sigs)))))"

section \<open>POST /api/v1/payments/yoco/webhook\<close>

record webhook_payload =
  payload_id :: "string js"
  metadata_checkoutId :: "string js"
  payload_failureReason :: "string js"
  payload_paymentId :: "string js"
  payload_amount :: "int js"

text \<open>
  \<^verbatim>\<open>const { type, payload } = req.body\<close>: the envelope may come without a payload, and
  then the first property read on it throws inside the \<^verbatim>\<open>try\<close>.
\<close>

record webhook_event =
  event_type :: string
  payload :: "webhook_payload option"

text \<open>\<^verbatim>\<open>payload.metadata?.checkoutId || payload.id\<close>\<close>

definition event_checkoutId :: "webhook_payload \<Rightarrow> string js" where
  "event_checkoutId p =
     (case metadata_checkoutId p of
        Val c \<Rightarrow> if c = [] then payload_id p else Val c
      | _ \<Rightarrow> payload_id p)"

definition payment_succeeded :: "webhook_payload \<Rightarrow> date \<Rightarrow> db \<Rightarrow> error + db" where
  "payment_succeeded p now s =
     (case findFirst (\<lambda>r. where_equals (event_checkoutId p) (stripePaymentIntentId r)) (payments s) of
        None \<Rightarrow> Inr s
      | Some (pid, pay) \<Rightarrow>
          (case map_of (orders s) (Payment.orderId pay) of
             None \<Rightarrow> Inr s
           | Some ord \<Rightarrow>
               transaction
                 [update_order (Payment.orderId pay) (\<lambda>r. r\<lparr>Order.status := Paid\<rparr>),
                  update_payment pid
                    (\<lambda>r. r\<lparr>Payment.status := PaymentSucceeded,
                            paidAt := Some now,
                            stripeChargeId := set_column (payload_id p) (stripeChargeId r)\<rparr>),
                  credit_loyalty (userId ord) (Order.quantity ord)] s))"

definition payment_failed :: "bool \<Rightarrow> webhook_payload \<Rightarrow> date \<Rightarrow> db \<Rightarrow> error + db" where
  "payment_failed cascade p now s =
     (case findFirst (\<lambda>r. where_equals (event_checkoutId p) (stripePaymentIntentId r)) (payments s) of
        None \<Rightarrow> Inr s
      | Some (pid, pay) \<Rightarrow>
          (case map_of (orders s) (Payment.orderId pay) of
             None \<Rightarrow> Inr s
           | Some ord \<Rightarrow>
               transaction
                 [release_stock (Order.bagId ord) (Order.quantity ord),
                  update_payment pid
                    (\<lambda>r. r\<lparr>Payment.status := PaymentFailed,
                            failedAt := Some now,
                            failureReason :=
                              (case payload_failureReason p of
                                 Val x \<Rightarrow> if x = [] then Some ''Payment failed'' else Some x
                               | _ \<Rightarrow> Some ''Payment failed'')\<rparr>),
                  order_delete cascade (Payment.orderId pay)] s))"

text \<open>
  \<^verbatim>\<open>refundAmount: payload.amount\<close> is a write to an integer column, refused when the
  number does not fit.
\<close>

definition mark_refunded :: "webhook_payload \<Rightarrow> id \<Rightarrow> date \<Rightarrow> db \<Rightarrow> error + db" where
  "mark_refunded p pid now s =
     (case payload_amount p of
        Val a \<Rightarrow>
          if int4 a
          then update_payment pid
                 (\<lambda>r. r\<lparr>Payment.status := PaymentRefunded,
                         refundedAt := Some now,
                         refundAmount := Some a,
                         stripeRefundId := set_column (payload_id p) (stripeRefundId r)\<rparr>) s
          else Inl (PrismaError ''P2020'')
      | other \<Rightarrow>
          update_payment pid
            (\<lambda>r. r\<lparr>Payment.status := PaymentRefunded,
                    refundedAt := Some now,
                    refundAmount := set_column other (refundAmount r),
                    stripeRefundId := set_column (payload_id p) (stripeRefundId r)\<rparr>) s)"

definition refund_succeeded :: "webhook_payload \<Rightarrow> date \<Rightarrow> db \<Rightarrow> error + db" where
  "refund_succeeded p now s =
     (case findFirst (\<lambda>r. where_equals (payload_paymentId p) (stripeChargeId r)) (payments s) of
        None \<Rightarrow> Inr s
      | Some (pid, pay) \<Rightarrow>
          (case map_of (orders s) (Payment.orderId pay) of
             None \<Rightarrow> Inr s
           | Some ord \<Rightarrow>
               transaction
                 [release_stock (Order.bagId ord) (Order.quantity ord),
                  mark_refunded p pid now,
                  update_order (Payment.orderId pay) (\<lambda>r. r\<lparr>Order.status := Refunded\<rparr>)] s))"

text \<open>The \<^verbatim>\<open>try { switch (type) ... }\<close> block: what the handler does once the signature passed.\<close>

definition webhook_dispatch :: "bool \<Rightarrow> webhook_event \<Rightarrow> date \<Rightarrow> db \<Rightarrow> outcome" where
  "webhook_dispatch cascade ev now s =
     (case (if event_type ev = ''payment.succeeded'' \<or> event_type ev = ''payment.failed''
                 \<or> event_type ev = ''refund.succeeded''
            then (case payload ev of
                    None \<Rightarrow> Inl (TypeError ''Cannot read properties of undefined'')
                  | Some p \<Rightarrow>
                      if event_type ev = ''payment.succeeded'' then payment_succeeded p now s
                      else if event_type ev = ''payment.failed'' then payment_failed cascade p now s
                      else refund_succeeded p now s)
            else Inr s) of
        Inl e \<Rightarrow> (Inr (Json 500 ''Webhook processing failed''), s)
      | Inr s' \<Rightarrow> (Inr (Json 200 ''received''), s'))"

text \<open>
  The whole handler. \<open>signature\<close> is the \<^verbatim>\<open>yoco-signature\<close> header, \<open>webhookSecret\<close> the
  environment variable, \<open>body\<close> is \<^verbatim>\<open>JSON.stringify(req.body)\<close>. The route calls
  \<^verbatim>\<open>verifyWebhookSignature(body, signature, webhookSecret)\<close>: three arguments for five
  parameters, so the secret lands in \<open>webhookId\<close> and the last two are \<^verbatim>\<open>undefined\<close>.
  The call is outside the \<^verbatim>\<open>try\<close>, so what it throws escapes the handler.
\<close>

definition yoco_webhook ::
  "(string \<Rightarrow> string \<Rightarrow> string) \<Rightarrow> (string \<Rightarrow> string) \<Rightarrow> bool \<Rightarrow>
   string option \<Rightarrow> string option \<Rightarrow> string \<Rightarrow> webhook_event \<Rightarrow> date \<Rightarrow> db \<Rightarrow> outcome" where
  "yoco_webhook hmac b64 cascade signature webhookSecret body ev now s =
     (if webhookSecret = None \<or> webhookSecret = Some [] then (Inr (Json 500 ''Webhook not configured''), s)
      else if signature = None \<or> signature = Some [] then (Inr (Json 401 ''Missing signature''), s)
      else
        (case verifyWebhookSignature hmac b64 (Some body) signature webhookSecret None None of
           Inl e \<Rightarrow> (Inl e, s)
         | Inr isValid \<Rightarrow>
             if \<not> isValid then (Inr (Json 401 ''Invalid signature''), s)
             else webhook_dispatch cascade ev now s))"

section \<open>Sequences of operations\<close>

text \<open>
  The operations that write to the store, and a run of them from a given store. The
  body of an order request has passed the Zod schema (\<open>quantity\<close> an integer from 1
  to 10), which is what \<open>validated\<close> records. \<open>stock_nonneg\<close> is the lower half of the
  listing invariant, together with what it needs of the orders.
\<close>

datatype operation =
  CreateOrder string checkout_gateway create_order_request
| BuyerCancel id id "string option" date
| BusinessStatus id id string date
| Scan id "string option" date
| RedirectSuccess status_gateway "id option" date
| RedirectCancel "id option"
| RedirectFailure "id option"
| WebhookEvent webhook_event date

fun apply_operation :: "bool \<Rightarrow> operation \<Rightarrow> db \<Rightarrow> db" where
  "apply_operation cascade (CreateOrder url gw rq) s = snd (create_order cascade url gw rq s)"
| "apply_operation cascade (BuyerCancel sub oid reason now) s = snd (cancel_order sub oid reason now s)"
| "apply_operation cascade (BusinessStatus sub oid st now) s = snd (business_order_status sub oid st now s)"
| "apply_operation cascade (Scan sub code now) s = snd (scan_order sub code now s)"
| "apply_operation cascade (RedirectSuccess gw oid now) s = snd (yoco_success gw oid now s)"
| "apply_operation cascade (RedirectCancel oid) s = snd (yoco_cancel cascade oid s)"
| "apply_operation cascade (RedirectFailure oid) s = snd (yoco_failure cascade oid s)"
| "apply_operation cascade (WebhookEvent ev now) s = snd (webhook_dispatch cascade ev now s)"

fun validated :: "operation \<Rightarrow> bool" where
  "validated (CreateOrder url gw rq) = (1 \<le> req_quantity rq \<and> req_quantity rq \<le> 10)"
| "validated _ = True"

fun run :: "bool \<Rightarrow> operation list \<Rightarrow> db \<Rightarrow> db" where
  "run cascade [] s = s"
| "run cascade (x # xs) s = run cascade xs (apply_operation cascade x s)"

definition stock_nonneg :: "db \<Rightarrow> bool" where
  "stock_nonneg s =
     (list_all (\<lambda>kv. 0 \<le> quantityRemaining (snd kv)) (bags s)
    \<and> list_all (\<lambda>kv. 0 \<le> Order.quantity (snd kv)) (orders s))"

section \<open>A small store to run the handlers on\<close>

text \<open>
  Two restaurants, the first with one listing of two bags at R55.00, one buyer with 25 loyalty
  points, and a request for one bag inside the pickup window.
\<close>

definition bag1 :: Bag where
  "bag1 = \<lparr>Bag.restaurantId = ''r1'', title = ''Veggie'', priceCurrent = 5500, quantityTotal = 2,
     quantityRemaining = 2, isActive = True, isSoldOut = False, pickupStart = 100, pickupEnd = 200\<rparr>"

definition user1 :: User where
  "user1 = \<lparr>email = ''a@b'', name = Some ''Ann'', loyaltyPoints = 25\<rparr>"

definition db0 :: db where
  "db0 = \<lparr>bags = [(''b1'', bag1)], orders = [], payments = [],
     users = [(''u1'', user1)],
     restaurants = [(''r1'', \<lparr>ownerId = ''w1'', name = ''Rest''\<rparr>),
                    (''r2'', \<lparr>ownerId = ''w2'', name = ''Other''\<rparr>)]\<rparr>"

definition rq0 :: create_order_request where
  "rq0 = \<lparr>req_sub = ''u1'', req_bagId = ''b1'', req_quantity = 1, req_now = 150, newOrderId = ''o1'',
     uuid = ''x'', newOrderNumber = ''KULA-A'', newPaymentId = ''p1''\<rparr>"

definition gw_ok :: checkout_gateway where
  "gw_ok = (\<lambda>_. Inr \<lparr>checkout_id = ''c1'', redirectUrl = ''pay'', checkout_status = ''created''\<rparr>)"

definition gw_down :: checkout_gateway where
  "gw_down = (\<lambda>_. Inl (AxiosError ''timeout''))"

text \<open>The order and the payment that the request above creates.\<close>

definition order1 :: Order where
  "order1 = \<lparr>Order.orderNumber = ''KULA-A'', userId = ''u1'', bagId = ''b1'', restaurantId = ''r1'',
     quantity = 1, subtotal = 5500, platformFee = 250, total = 5750, status = Pending,
     pickupStart = 100, pickupEnd = 200, qrCode = ''SAVR-x'', qrScannedAt = None, cancelledAt = None,
     cancellationReason = None, cancelledById = None\<rparr>"

definition payment1 :: Payment where
  "payment1 = \<lparr>Payment.orderId = ''o1'', amount = 5750, pay_method = ''card'', status = PaymentPending,
     stripePaymentIntentId = Some ''c1'', stripeChargeId = None, paidAt = None, failedAt = None,
     failureReason = None, refundedAt = None, refundAmount = None, stripeRefundId = None,
     cardLast4 = None, cardBrand = None\<rparr>"

text \<open>
  The stores reached from \<open>db0\<close> by running the handlers: after the order is created,
  after a success redirect that the provider confirms, after the pickup scan, and after
  the buyer cancels the pending order instead. \<open>ev_paid\<close> is the provider's ``payment
  succeeded'' event for that order.
\<close>

definition ev_paid :: webhook_event where
  "ev_paid = \<lparr>event_type = ''payment.succeeded'',
      payload = Some \<lparr>payload_id = Val ''y1'', metadata_checkoutId = Val ''c1'',
                        payload_failureReason = Undefined, payload_paymentId = Undefined,
                        payload_amount = Undefined\<rparr>\<rparr>"

definition status_successful :: status_gateway where
  "status_successful = (\<lambda>_. Inr \<lparr>provider_status = ''successful'', card = None\<rparr>)"

definition db_pending :: db where
  "db_pending = snd (create_order True ''http://h'' gw_ok rq0 db0)"

definition db_paid :: db where
  "db_paid = snd (yoco_success status_successful (Some ''o1'') 160 db_pending)"

definition db_collected :: db where
  "db_collected = snd (scan_order ''w1'' (Some ''SAVR-x'') 170 db_paid)"

definition db_cancelled :: db where
  "db_cancelled = snd (cancel_order ''u1'' ''o1'' None 155 db_pending)"


section \<open>Facts about tables and the example stores\<close>

lemma update_row_found:
  "map_of t k = Some v \<Longrightarrow> update_row k f t = Inr (AList.update k (f v) t)"
  by (simp add: update_row_def)

lemma findFirst_update:
  "findFirst P t = Some (k, v) \<Longrightarrow> map_of t k = Some v \<Longrightarrow> P v' \<Longrightarrow>
     findFirst P (AList.update k v' t) = Some (k, v')"
proof (induction t)
  case Nil
  then show ?case by (simp add: findFirst_def)
next
  case (Cons a t)
  obtain k0 v0 where a: "a = (k0, v0)" by (cases a)
  show ?case
  proof (cases "k0 = k")
    case True
    with Cons.prems a show ?thesis by (simp add: findFirst_def)
  next
    case False
    with Cons.prems a have "\<not> P v0" by (auto simp: findFirst_def split: if_splits)
    with Cons False a show ?thesis by (simp add: findFirst_def)
  qed
qed

lemma findFirst_sat:
  "findFirst P t = Some (k, v) \<Longrightarrow> P v \<and> (k, v) \<in> set t"
  by (induction t) (auto simp: findFirst_def split: if_splits)

lemma findFirst_key:
  "findFirst P t = Some (k, v) \<Longrightarrow> distinct (map fst t) \<Longrightarrow> map_of t k = Some v"
proof -
  assume f: "findFirst P t = Some (k, v)" and d: "distinct (map fst t)"
  from f have "(k, v) \<in> set t"
    by (simp add: findFirst_sat)
  with d show ?thesis by simp
qed

lemma db_pending_eq:
  "db_pending = db0\<lparr>bags := [(''b1'', bag1\<lparr>quantityRemaining := 1\<rparr>)],
                     orders := [(''o1'', order1)], payments := [(''p1'', payment1)]\<rparr>"
  by code_simp

lemma db_paid_eq:
  "db_paid = db_pending\<lparr>orders := [(''o1'', order1\<lparr>Order.status := Paid\<rparr>)],
       payments := [(''p1'', payment1\<lparr>Payment.status := PaymentSucceeded, paidAt := Some 160\<rparr>)],
       users := [(''u1'', user1\<lparr>loyaltyPoints := 26\<rparr>)]\<rparr>"
  by code_simp

section \<open>Reservation\<close>

lemma reserve_tx_success:
  assumes "reserve_tx rq s = Inr (r, s')"
  shows "\<exists>b. map_of (bags s) (req_bagId rq) = Some b
        \<and> isActive b \<and> \<not> isSoldOut b \<and> req_quantity rq \<le> quantityRemaining b \<and> req_now rq \<le> Bag.pickupEnd b
        \<and> bags s' = AList.update (req_bagId rq)
             (b\<lparr>quantityRemaining := quantityRemaining b - req_quantity rq,
                isSoldOut := (quantityRemaining b - req_quantity rq \<le> 0)\<rparr>) (bags s)
        \<and> orders s' = orders s @ [(newOrderId rq, res_order r)]
        \<and> map_of (orders s) (newOrderId rq) = None
        \<and> payments s' = payments s \<and> users s' = users s \<and> restaurants s' = restaurants s
        \<and> res_bag r = b
        \<and> res_total r = priceCurrent b * req_quantity rq + 250
        \<and> Order.status (res_order r) = Pending
        \<and> Order.quantity (res_order r) = req_quantity rq
        \<and> Order.bagId (res_order r) = req_bagId rq
        \<and> Order.userId (res_order r) = req_sub rq
        \<and> Order.subtotal (res_order r) = priceCurrent b * req_quantity rq
        \<and> Order.platformFee (res_order r) = 250
        \<and> Order.total (res_order r) = priceCurrent b * req_quantity rq + 250
        \<and> int4 (priceCurrent b * req_quantity rq + 250)"
  using assms
  by (auto simp: reserve_tx_def update_bag_def update_row_def order_create_def create_row_def
       Let_def update_conv' split: option.splits if_splits sum.splits)

lemma create_order_created:
  assumes "create_order cascade url gw rq s = (Inr (OrderCreated oid ord ck pay), s')"
  shows "\<exists>r s1 c. reserve_tx rq s = Inr (r, s1) \<and> gw (checkout_params url rq r s1) = Inr c
      \<and> oid = newOrderId rq \<and> ord = res_order r \<and> ck = checkout_id c \<and> pay = redirectUrl c
      \<and> orders s' = orders s1 \<and> bags s' = bags s1
      \<and> (\<exists>p. payments s' = payments s1 @ [(newPaymentId rq, p)] \<and> Payment.amount p = res_total r
            \<and> map_of (payments s1) (newPaymentId rq) = None)"
  using assms
  by (auto simp: create_order_def checkout_failed_def payment_create_def create_row_def
        split: sum.splits prod.splits option.splits if_splits)

lemma reserve_tx_admissible:
  assumes "map_of (bags s) (req_bagId rq) = Some b"
    and "isActive b" and "\<not> isSoldOut b"
    and "req_quantity rq \<le> quantityRemaining b" and "req_now rq \<le> Bag.pickupEnd b"
    and "int4 (quantityRemaining b - req_quantity rq)" and "int4 (req_quantity rq)"
    and "int4 (priceCurrent b * req_quantity rq)" and "int4 (priceCurrent b * req_quantity rq + 250)"
    and "map_of (orders s) (newOrderId rq) = None"
    and "findFirst (\<lambda>r. Order.orderNumber r = newOrderNumber rq \<or> qrCode r = ''SAVR-'' @ uuid rq) (orders s) = None"
  shows "\<exists>r s'. reserve_tx rq s = Inr (r, s')"
  using assms
  by (simp add: reserve_tx_def update_bag_def update_row_def order_create_def create_row_def
        Let_def update_conv' int4_def)

text \<open>
  Claim C8 lists ``its pickup window has closed'' among the reasons for refusal, and the
  window is the half-open interval from \<open>pickupStart\<close> to \<open>pickupEnd\<close>. The handler
  tests \<^verbatim>\<open>new Date() > bag.pickupEnd\<close>, so at the instant \<open>pickupEnd\<close> itself the
  reservation is still accepted: on the example store, whose window ends at 200, a
  request at time 200 reserves the bag.
\<close>

theorem reserve_at_window_end_counterexample:
  "req_now (rq0\<lparr>req_now := 200\<rparr>) = Bag.pickupEnd bag1
 \<and> map_of (bags db0) (req_bagId (rq0\<lparr>req_now := 200\<rparr>)) = Some bag1
 \<and> reserve_tx (rq0\<lparr>req_now := 200\<rparr>) db0 =
     Inr (\<lparr>res_order = order1, res_bag = bag1, res_user = Some user1, res_total = 5750,
           res_subtotal = 5500, res_platformFee = 250\<rparr>,
          db0\<lparr>bags := [(''b1'', bag1\<lparr>quantityRemaining := 1\<rparr>)], orders := [(''o1'', order1)]\<rparr>)"
  by code_simp

text \<open>
  Claim C8, as amended. Order creation reserves stock in one transaction, and its
  checks run in this order. It fails with 404 ``Bag not found'' when the listing does
  not exist; with 400 ``Bag is not available'' when the listing is inactive or sold
  out; otherwise with 400 ``Not enough bags available'' when the requested quantity
  exceeds \<open>quantityRemaining\<close>; otherwise with 400 ``Pickup window has ended'' when the
  clock is strictly past \<open>pickupEnd\<close>. In every other case, the instant \<open>pickupEnd\<close>
  included, the reservation succeeds, provided the generated order id, order number
  and QR code are new and the numbers written fit their 32-bit columns. On success
  \<open>quantityRemaining\<close> is decremented by the requested quantity and stays non-negative,
  the sold-out flag is set exactly when the new remaining is zero, no other listing,
  payment or user changes, and the order is stored with status pending for the buyer.
  A failed reservation leaves the store as it was.
\<close>

theorem reserve_outcomes:
  "(map_of (bags s) (req_bagId rq) = None \<longrightarrow>
      reserve_tx rq s = Inl (ApiError ''Bag not found'' 404))
 \<and> (\<forall>b. map_of (bags s) (req_bagId rq) = Some b \<longrightarrow>
      ((\<not> isActive b \<or> isSoldOut b) \<longrightarrow>
         reserve_tx rq s = Inl (ApiError ''Bag is not available'' 400))
    \<and> (isActive b \<and> \<not> isSoldOut b \<and> quantityRemaining b < req_quantity rq \<longrightarrow>
         reserve_tx rq s = Inl (ApiError ''Not enough bags available'' 400))
    \<and> (isActive b \<and> \<not> isSoldOut b \<and> req_quantity rq \<le> quantityRemaining b \<and> Bag.pickupEnd b < req_now rq \<longrightarrow>
         reserve_tx rq s = Inl (ApiError ''Pickup window has ended'' 400))
    \<and> (isActive b \<and> \<not> isSoldOut b \<and> req_quantity rq \<le> quantityRemaining b \<and> req_now rq \<le> Bag.pickupEnd b
        \<and> int4 (quantityRemaining b - req_quantity rq) \<and> int4 (req_quantity rq)
        \<and> int4 (priceCurrent b * req_quantity rq) \<and> int4 (priceCurrent b * req_quantity rq + 250)
        \<and> map_of (orders s) (newOrderId rq) = None
        \<and> findFirst (\<lambda>r. Order.orderNumber r = newOrderNumber rq \<or> qrCode r = ''SAVR-'' @ uuid rq) (orders s) = None
        \<longrightarrow> (\<exists>r s'. reserve_tx rq s = Inr (r, s')))
    \<and> (\<forall>r s'. reserve_tx rq s = Inr (r, s') \<longrightarrow>
         map_of (bags s') (req_bagId rq) =
           Some (b\<lparr>quantityRemaining := quantityRemaining b - req_quantity rq,
                   isSoldOut := (quantityRemaining b - req_quantity rq = 0)\<rparr>)
       \<and> 0 \<le> quantityRemaining b - req_quantity rq
       \<and> (\<forall>k. k \<noteq> req_bagId rq \<longrightarrow> map_of (bags s') k = map_of (bags s) k)
       \<and> payments s' = payments s \<and> users s' = users s
       \<and> orders s' = orders s @ [(newOrderId rq, res_order r)]
       \<and> map_of (orders s') (newOrderId rq) = Some (res_order r)
       \<and> Order.status (res_order r) = Pending
       \<and> Order.userId (res_order r) = req_sub rq
       \<and> Order.quantity (res_order r) = req_quantity rq
       \<and> Order.bagId (res_order r) = req_bagId rq))
 \<and> (\<forall>e. reserve_tx rq s = Inl e \<longrightarrow> create_order cascade url gw rq s = (Inl e, s))"
proof (intro conjI allI impI)
  assume "map_of (bags s) (req_bagId rq) = None"
  then show "reserve_tx rq s = Inl (ApiError ''Bag not found'' 404)"
    by (simp add: reserve_tx_def)
next
  fix b assume "map_of (bags s) (req_bagId rq) = Some b" "\<not> isActive b \<or> isSoldOut b"
  then show "reserve_tx rq s = Inl (ApiError ''Bag is not available'' 400)"
    by (auto simp: reserve_tx_def)
next
  fix b assume "map_of (bags s) (req_bagId rq) = Some b"
    "isActive b \<and> \<not> isSoldOut b \<and> quantityRemaining b < req_quantity rq"
  then show "reserve_tx rq s = Inl (ApiError ''Not enough bags available'' 400)"
    by (simp add: reserve_tx_def)
next
  fix b assume "map_of (bags s) (req_bagId rq) = Some b"
    "isActive b \<and> \<not> isSoldOut b \<and> req_quantity rq \<le> quantityRemaining b \<and> Bag.pickupEnd b < req_now rq"
  then show "reserve_tx rq s = Inl (ApiError ''Pickup window has ended'' 400)"
    by (simp add: reserve_tx_def)
next
  fix b assume b: "map_of (bags s) (req_bagId rq) = Some b"
    and adm: "isActive b \<and> \<not> isSoldOut b \<and> req_quantity rq \<le> quantityRemaining b \<and> req_now rq \<le> Bag.pickupEnd b
        \<and> int4 (quantityRemaining b - req_quantity rq) \<and> int4 (req_quantity rq)
        \<and> int4 (priceCurrent b * req_quantity rq) \<and> int4 (priceCurrent b * req_quantity rq + 250)
        \<and> map_of (orders s) (newOrderId rq) = None
        \<and> findFirst (\<lambda>r. Order.orderNumber r = newOrderNumber rq \<or> qrCode r = ''SAVR-'' @ uuid rq) (orders s) = None"
  then show "\<exists>r s'. reserve_tx rq s = Inr (r, s')"
    by (intro reserve_tx_admissible [of s rq b]) simp_all
next
  fix b r s' assume b: "map_of (bags s) (req_bagId rq) = Some b" and ok: "reserve_tx rq s = Inr (r, s')"
  from reserve_tx_success [OF ok] b
  have le: "req_quantity rq \<le> quantityRemaining b"
    and bs: "bags s' = AList.update (req_bagId rq)
             (b\<lparr>quantityRemaining := quantityRemaining b - req_quantity rq,
                isSoldOut := (quantityRemaining b - req_quantity rq \<le> 0)\<rparr>) (bags s)"
    and os: "orders s' = orders s @ [(newOrderId rq, res_order r)]"
    and fresh: "map_of (orders s) (newOrderId rq) = None"
    and same: "payments s' = payments s" "users s' = users s"
    and st: "Order.status (res_order r) = Pending"
    and q: "Order.quantity (res_order r) = req_quantity rq"
    and bid: "Order.bagId (res_order r) = req_bagId rq"
    and uid: "Order.userId (res_order r) = req_sub rq"
    by auto
  from le have eq: "(quantityRemaining b \<le> req_quantity rq) = (quantityRemaining b = req_quantity rq)"
    by auto
  show "map_of (bags s') (req_bagId rq) =
           Some (b\<lparr>quantityRemaining := quantityRemaining b - req_quantity rq,
                   isSoldOut := (quantityRemaining b - req_quantity rq = 0)\<rparr>)"
    by (simp add: bs update_conv' eq)
  show "0 \<le> quantityRemaining b - req_quantity rq" using le by simp
  show "payments s' = payments s" by (rule same)
  show "users s' = users s" by (rule same)
  show "orders s' = orders s @ [(newOrderId rq, res_order r)]" by (rule os)
  show "map_of (orders s') (newOrderId rq) = Some (res_order r)"
    by (simp add: os fresh map_add_def)
  show "Order.status (res_order r) = Pending" by (rule st)
  show "Order.userId (res_order r) = req_sub rq" by (rule uid)
  show "Order.quantity (res_order r) = req_quantity rq" by (rule q)
  show "Order.bagId (res_order r) = req_bagId rq" by (rule bid)
  fix k assume "k \<noteq> req_bagId rq"
  then show "map_of (bags s') k = map_of (bags s) k"
    by (simp add: bs update_conv')
next
  fix e assume "reserve_tx rq s = Inl e"
  then show "create_order cascade url gw rq s = (Inl e, s)"
    by (simp add: create_order_def)
qed

theorem reserve_outcomes_witness:
  "reserve_tx (rq0\<lparr>req_bagId := ''zz''\<rparr>) db0 = Inl (ApiError ''Bag not found'' 404)
 \<and> reserve_tx rq0 (db0\<lparr>bags := [(''b1'', bag1\<lparr>isActive := False\<rparr>)]\<rparr>) = Inl (ApiError ''Bag is not available'' 400)
 \<and> reserve_tx (rq0\<lparr>req_quantity := 3\<rparr>) db0 = Inl (ApiError ''Not enough bags available'' 400)
 \<and> reserve_tx (rq0\<lparr>req_now := 201\<rparr>) db0 = Inl (ApiError ''Pickup window has ended'' 400)
 \<and> (\<exists>r s'. reserve_tx (rq0\<lparr>req_quantity := 2, req_now := 200\<rparr>) db0 = Inr (r, s')
       \<and> map_of (bags s') ''b1'' = Some (bag1\<lparr>quantityRemaining := 0, isSoldOut := True\<rparr>)
       \<and> orders s' = [(''o1'', res_order r)]
       \<and> Order.status (res_order r) = Pending)"
proof -
  let ?rq = "rq0\<lparr>req_quantity := 2, req_now := 200\<rparr>"
  have a: "map_of (bags db0) (req_bagId (rq0\<lparr>req_bagId := ''zz''\<rparr>)) = None"
    by (simp add: db0_def)
  have b: "map_of (bags (db0\<lparr>bags := [(''b1'', bag1\<lparr>isActive := False\<rparr>)]\<rparr>)) (req_bagId rq0)
             = Some (bag1\<lparr>isActive := False\<rparr>)"
    and b': "\<not> isActive (bag1\<lparr>isActive := False\<rparr>) \<or> isSoldOut (bag1\<lparr>isActive := False\<rparr>)"
    by (simp_all add: rq0_def)
  have c: "map_of (bags db0) (req_bagId (rq0\<lparr>req_quantity := 3\<rparr>)) = Some bag1"
    and c': "isActive bag1 \<and> \<not> isSoldOut bag1 \<and> quantityRemaining bag1 < req_quantity (rq0\<lparr>req_quantity := 3\<rparr>)"
    by (simp_all add: db0_def rq0_def bag1_def)
  have d: "map_of (bags db0) (req_bagId (rq0\<lparr>req_now := 201\<rparr>)) = Some bag1"
    and d': "isActive bag1 \<and> \<not> isSoldOut bag1 \<and> req_quantity (rq0\<lparr>req_now := 201\<rparr>) \<le> quantityRemaining bag1
             \<and> Bag.pickupEnd bag1 < req_now (rq0\<lparr>req_now := 201\<rparr>)"
    by (simp_all add: db0_def rq0_def bag1_def)
  have e: "map_of (bags db0) (req_bagId ?rq) = Some bag1"
    by (simp add: db0_def rq0_def)
  have e': "isActive bag1 \<and> \<not> isSoldOut bag1 \<and> req_quantity ?rq \<le> quantityRemaining bag1
        \<and> req_now ?rq \<le> Bag.pickupEnd bag1
        \<and> int4 (quantityRemaining bag1 - req_quantity ?rq) \<and> int4 (req_quantity ?rq)
        \<and> int4 (priceCurrent bag1 * req_quantity ?rq) \<and> int4 (priceCurrent bag1 * req_quantity ?rq + 250)
        \<and> map_of (orders db0) (newOrderId ?rq) = None
        \<and> findFirst (\<lambda>r. Order.orderNumber r = newOrderNumber ?rq \<or> qrCode r = ''SAVR-'' @ uuid ?rq) (orders db0) = None"
    by (simp add: db0_def rq0_def bag1_def int4_def findFirst_def)
  note w1 = reserve_outcomes [THEN conjunct1, THEN mp, OF a]
  note w2 = reserve_outcomes [THEN conjunct2, THEN conjunct1, THEN spec, THEN mp, OF b,
               THEN conjunct1, THEN mp, OF b']
  note w3 = reserve_outcomes [THEN conjunct2, THEN conjunct1, THEN spec, THEN mp, OF c,
               THEN conjunct2, THEN conjunct1, THEN mp, OF c']
  note w4 = reserve_outcomes [THEN conjunct2, THEN conjunct1, THEN spec, THEN mp, OF d,
               THEN conjunct2, THEN conjunct2, THEN conjunct1, THEN mp, OF d']
  note w5 = reserve_outcomes [THEN conjunct2, THEN conjunct1, THEN spec, THEN mp, OF e,
               THEN conjunct2, THEN conjunct2, THEN conjunct2, THEN conjunct1, THEN mp, OF e']
  from w5 obtain r s' where ok: "reserve_tx ?rq db0 = Inr (r, s')" by blast
  note w6 = reserve_outcomes [THEN conjunct2, THEN conjunct1, THEN spec, THEN mp, OF e,
               THEN conjunct2, THEN conjunct2, THEN conjunct2, THEN conjunct2, THEN spec, THEN spec,
               THEN mp, OF ok]
  have f: "map_of (bags s') ''b1'' = Some (bag1\<lparr>quantityRemaining := 0, isSoldOut := True\<rparr>)"
    using w6 [THEN conjunct1] by (simp add: rq0_def bag1_def)
  have g: "orders s' = [(''o1'', res_order r)]"
    using w6 by (simp add: rq0_def db0_def)
  have h: "Order.status (res_order r) = Pending"
    using w6 by simp
  from ok f g h have "\<exists>r s'. reserve_tx ?rq db0 = Inr (r, s')
       \<and> map_of (bags s') ''b1'' = Some (bag1\<lparr>quantityRemaining := 0, isSoldOut := True\<rparr>)
       \<and> orders s' = [(''o1'', res_order r)]
       \<and> Order.status (res_order r) = Pending"
    by blast
  with w1 w2 w3 w4 show ?thesis by blast
qed

section \<open>Pricing\<close>

text \<open>
  Claim C10. For every successfully created order the platform fee is the constant
  250 cents, the subtotal is the listing's current price times the ordered quantity,
  the total is subtotal plus 250, and that total is the amount sent to the gateway and
  recorded on the payment.
\<close>

theorem order_pricing:
  assumes "create_order cascade url gw rq s = (Inr (OrderCreated oid ord ck pay), s')"
  shows "\<exists>b r s1 c p.
           map_of (bags s) (req_bagId rq) = Some b
         \<and> reserve_tx rq s = Inr (r, s1)
         \<and> Order.platformFee ord = 250
         \<and> Order.subtotal ord = priceCurrent b * req_quantity rq
         \<and> Order.total ord = Order.subtotal ord + 250
         \<and> map_of (orders s') oid = Some ord
         \<and> gw (checkout_params url rq r s1) = Inr c
         \<and> CreateCheckoutParams.amount (checkout_params url rq r s1) = Order.total ord
         \<and> checkout_id c = ck
         \<and> map_of (payments s') (newPaymentId rq) = Some p
         \<and> Payment.amount p = Order.total ord"
proof -
  from create_order_created [OF assms] obtain r s1 c p where
    r: "reserve_tx rq s = Inr (r, s1)" and g: "gw (checkout_params url rq r s1) = Inr c"
    and ids: "oid = newOrderId rq" "ord = res_order r" "ck = checkout_id c"
    and st: "orders s' = orders s1"
    and p: "payments s' = payments s1 @ [(newPaymentId rq, p)]" "Payment.amount p = res_total r"
           "map_of (payments s1) (newPaymentId rq) = None"
    by blast
  from reserve_tx_success [OF r] obtain b where
    b: "map_of (bags s) (req_bagId rq) = Some b"
    and os: "orders s1 = orders s @ [(newOrderId rq, res_order r)]"
            "map_of (orders s) (newOrderId rq) = None"
    and tot: "res_total r = priceCurrent b * req_quantity rq + 250"
    and f: "Order.subtotal (res_order r) = priceCurrent b * req_quantity rq"
           "Order.platformFee (res_order r) = 250"
           "Order.total (res_order r) = priceCurrent b * req_quantity rq + 250"
    by blast
  have 1: "map_of (orders s') oid = Some ord"
    by (simp add: st os ids map_add_def)
  have 2: "map_of (payments s') (newPaymentId rq) = Some p"
    by (simp add: p map_add_def)
  have 3: "CreateCheckoutParams.amount (checkout_params url rq r s1) = Order.total ord"
    by (simp add: checkout_params_def tot f ids)
  show ?thesis
    using b r g 1 2 3 ids f p(2) tot by auto
qed

theorem order_pricing_witness:
  "\<exists>ord s'. create_order True ''http://h'' gw_ok rq0 db0 = (Inr (OrderCreated ''o1'' ord ''c1'' ''pay''), s')
     \<and> Order.platformFee ord = 250 \<and> Order.subtotal ord = 5500 \<and> Order.total ord = 5750
     \<and> map_option Payment.amount (map_of (payments s') ''p1'') = Some 5750"
proof -
  obtain ord s' where ok: "create_order True ''http://h'' gw_ok rq0 db0 = (Inr (OrderCreated ''o1'' ord ''c1'' ''pay''), s')"
    by (simp add: create_order_def reserve_tx_def rq0_def db0_def bag1_def gw_ok_def update_bag_def
          update_row_def order_create_def create_row_def payment_create_def findFirst_def Let_def int4_def)
  from order_pricing [OF ok] show ?thesis
    using ok by (auto simp: rq0_def db0_def bag1_def)
qed

section \<open>Compensation when the checkout cannot be created\<close>

text \<open>
  Claim C3. When the gateway call throws after a successful reservation the spec asks
  for the order to be removed and \<open>quantityRemaining\<close> to return to its value before
  the reservation. The \<^verbatim>\<open>catch\<close> block deletes the order but never releases the
  stock: on the store above, a reservation of one bag out of two followed by a gateway
  failure leaves no order and \<open>quantityRemaining = 1\<close>, not 2.
\<close>

theorem checkout_failure_keeps_reservation:
  "create_order cascade url gw_down rq0 db0 =
     (Inr (Json 500 ''Failed to create payment checkout''),
      db0\<lparr>bags := [(''b1'', bag1\<lparr>quantityRemaining := 1\<rparr>)]\<rparr>)"
  by (simp add: create_order_def reserve_tx_def rq0_def db0_def bag1_def gw_down_def update_bag_def
        update_row_def order_create_def create_row_def findFirst_def checkout_failed_def
        order_delete_def Let_def int4_def)

section \<open>Delivery of the ``payment succeeded'' event\<close>

text \<open>
  The switch behind the signature check, taken alone, does not look at the payment's
  status: run twice on the example store it credits the buyer twice (25, 26, 27 points).
  The route never gets that far, as the theorem below shows.
\<close>

lemma dispatch_replay_credits_twice:
  "map_option loyaltyPoints (map_of (users db_pending) ''u1'') = Some 25
 \<and> map_option loyaltyPoints
       (map_of (users (snd (webhook_dispatch True ev_paid 160 db_pending))) ''u1'') = Some 26
 \<and> map_option loyaltyPoints
       (map_of (users (snd (webhook_dispatch True ev_paid 161
                              (snd (webhook_dispatch True ev_paid 160 db_pending))))) ''u1'') = Some 27"
  by code_simp

text \<open>
  Claim C1. Two deliveries of the same ``payment succeeded'' event should leave exactly
  one loyalty credit and the order paid. The webhook route calls
  \<open>verifyWebhookSignature\<close> with three of its five arguments, so every request that
  carries a signature throws before the switch; a request without signature is answered
  401 and one without configured secret 500. Hence no request at all changes the store
  or is answered ``received''. For the example order, a signed ``payment succeeded''
  event delivered twice leaves the order pending, the payment pending and the buyer at
  25 points: no credit instead of one.
\<close>

theorem payment_succeeded_webhook_never_credits:
  "snd (yoco_webhook hmac b64 cascade sg secret body ev now s) = s
 \<and> fst (yoco_webhook hmac b64 cascade sg secret body ev now s) \<noteq> Inr (Json 200 ''received'')
 \<and> yoco_webhook hmac b64 cascade (Some ''v1,c2ln'') (Some ''whsec_c2VjcmV0'') body ev_paid 160 db_pending
     = (Inl (TypeError ''Cannot read properties of undefined (reading 'replace')''), db_pending)
 \<and> yoco_webhook hmac b64 cascade (Some ''v1,c2ln'') (Some ''whsec_c2VjcmV0'') body ev_paid 161
       (snd (yoco_webhook hmac b64 cascade (Some ''v1,c2ln'') (Some ''whsec_c2VjcmV0'') body ev_paid 160
               db_pending))
     = (Inl (TypeError ''Cannot read properties of undefined (reading 'replace')''), db_pending)
 \<and> map_option loyaltyPoints (map_of (users db_pending) ''u1'') = Some 25
 \<and> map_option Order.status (map_of (orders db_pending) ''o1'') = Some Pending
 \<and> map_option Payment.status (map_of (payments db_pending) ''p1'') = Some PaymentPending"
proof -
  have 1: "snd (yoco_webhook hmac b64 cascade sg secret body ev now s) = s"
    by (simp add: yoco_webhook_def verifyWebhookSignature_def)
  have 2: "fst (yoco_webhook hmac b64 cascade sg secret body ev now s) \<noteq> Inr (Json 200 ''received'')"
    by (simp add: yoco_webhook_def verifyWebhookSignature_def)
  have 3: "yoco_webhook hmac b64 cascade (Some ''v1,c2ln'') (Some ''whsec_c2VjcmV0'') body ev_paid t db_pending
     = (Inl (TypeError ''Cannot read properties of undefined (reading 'replace')''), db_pending)" for t
    by (simp add: yoco_webhook_def verifyWebhookSignature_def)
  have 4: "map_option loyaltyPoints (map_of (users db_pending) ''u1'') = Some 25
     \<and> map_option Order.status (map_of (orders db_pending) ''o1'') = Some Pending
     \<and> map_option Payment.status (map_of (payments db_pending) ''p1'') = Some PaymentPending"
    by (simp add: db_pending_eq db0_def user1_def order1_def payment1_def)
  show ?thesis
    using 1 2 3 [of 160] 3 [of 161] 4 by simp
qed

section \<open>Bounds of the stock counter\<close>

text \<open>
  The lower bound holds: no run of validated operations makes a counter negative. The
  reservation checks the stock before it decrements, and every other write to a counter
  is a release of an order's quantity, which is never negative.
\<close>

lemma list_all_update:
  "list_all P t \<Longrightarrow> P (k, v) \<Longrightarrow> list_all P (AList.update k v t)"
  by (induction t) auto

lemma list_all_delete:
  "list_all P t \<Longrightarrow> list_all P (AList.delete k t)"
  by (induction t) auto

lemma list_all_map_of:
  "list_all P t \<Longrightarrow> map_of t k = Some v \<Longrightarrow> P (k, v)"
  by (induction t) (auto split: if_splits)

lemma update_bag_nonneg:
  assumes "update_bag k f s = Inr s'" and "stock_nonneg s"
    and "\<And>b. map_of (bags s) k = Some b \<Longrightarrow> 0 \<le> quantityRemaining b \<Longrightarrow> 0 \<le> quantityRemaining (f b)"
  shows "stock_nonneg s'"
proof -
  from assms(1) obtain b where b: "map_of (bags s) k = Some b"
    and s': "s' = s\<lparr>bags := AList.update k (f b) (bags s)\<rparr>"
    by (auto simp: update_bag_def update_row_def split: option.splits)
  from assms(2) b have "0 \<le> quantityRemaining b"
    using list_all_map_of [of "\<lambda>kv. 0 \<le> quantityRemaining (snd kv)" "bags s" k b]
    by (simp add: stock_nonneg_def)
  with assms(3) b have "0 \<le> quantityRemaining (f b)" by blast
  with assms(2) show ?thesis
    by (simp add: s' stock_nonneg_def list_all_update)
qed

lemma update_order_nonneg:
  assumes "update_order k f s = Inr s'" and "stock_nonneg s"
    and "\<And>r. Order.quantity (f r) = Order.quantity r"
  shows "stock_nonneg s'"
proof -
  from assms(1) obtain r where r: "map_of (orders s) k = Some r"
    and s': "s' = s\<lparr>orders := AList.update k (f r) (orders s)\<rparr>"
    by (auto simp: update_order_def update_row_def split: option.splits)
  from assms(2) r have "0 \<le> Order.quantity r"
    using list_all_map_of [of "\<lambda>kv. 0 \<le> Order.quantity (snd kv)" "orders s" k r]
    by (simp add: stock_nonneg_def)
  with assms(2,3) show ?thesis
    by (simp add: s' stock_nonneg_def list_all_update)
qed

lemma update_payment_nonneg:
  "update_payment k f s = Inr s' \<Longrightarrow> stock_nonneg s \<Longrightarrow> stock_nonneg s'"
  by (auto simp: update_payment_def stock_nonneg_def split: sum.splits)

lemma update_user_nonneg:
  "update_user k f s = Inr s' \<Longrightarrow> stock_nonneg s \<Longrightarrow> stock_nonneg s'"
  by (auto simp: update_user_def stock_nonneg_def split: sum.splits)

lemma order_delete_nonneg:
  "order_delete cascade k s = Inr s' \<Longrightarrow> stock_nonneg s \<Longrightarrow> stock_nonneg s'"
  by (auto simp: order_delete_def stock_nonneg_def list_all_delete split: option.splits if_splits)

lemma order_quantity_nonneg:
  "stock_nonneg s \<Longrightarrow> map_of (orders s) k = Some r \<Longrightarrow> 0 \<le> Order.quantity r"
  using list_all_map_of [of "\<lambda>kv. 0 \<le> Order.quantity (snd kv)" "orders s" k r]
  by (simp add: stock_nonneg_def)

lemma release_nonneg:
  assumes "update_bag k (release q) s = Inr s'" and "stock_nonneg s" and "0 \<le> q"
  shows "stock_nonneg s'"
  using assms(1,2)
proof (rule update_bag_nonneg)
  fix b :: Bag assume "0 \<le> quantityRemaining b"
  with assms(3) show "0 \<le> quantityRemaining (release q b)" by (simp add: release_def)
qed

lemma release_stock_nonneg:
  assumes "release_stock k q s = Inr s'" and "stock_nonneg s" and "0 \<le> q"
  shows "stock_nonneg s'"
proof -
  from assms(1) have "update_bag k (release q) s = Inr s'"
    by (auto simp: release_stock_def split: option.splits if_splits)
  then show ?thesis using assms(2,3) by (rule release_nonneg)
qed

lemma credit_loyalty_nonneg:
  "credit_loyalty k q s = Inr s' \<Longrightarrow> stock_nonneg s \<Longrightarrow> stock_nonneg s'"
  by (auto simp: credit_loyalty_def dest: update_user_nonneg split: option.splits if_splits)

lemma mark_refunded_nonneg:
  "mark_refunded p pid now s = Inr s' \<Longrightarrow> stock_nonneg s \<Longrightarrow> stock_nonneg s'"
  by (auto simp: mark_refunded_def dest: update_payment_nonneg split: js.splits if_splits)

lemma transaction_nonneg:
  assumes "\<And>w a b. w \<in> set ws \<Longrightarrow> stock_nonneg a \<Longrightarrow> w a = Inr b \<Longrightarrow> stock_nonneg b"
  shows "stock_nonneg s \<Longrightarrow> transaction ws s = Inr s' \<Longrightarrow> stock_nonneg s'"
  using assms
proof (induction ws arbitrary: s)
  case Nil
  then show ?case by simp
next
  case (Cons w ws)
  from Cons.prems(2) obtain s1 where w: "w s = Inr s1" and rest: "transaction ws s1 = Inr s'"
    by (auto split: sum.splits)
  from Cons.prems(3) [of w s s1] Cons.prems(1) w have "stock_nonneg s1" by simp
  with rest Cons.prems(3) show ?case
    by (intro Cons.IH [of s1]) auto
qed

lemma reserve_tx_nonneg:
  assumes "reserve_tx rq s = Inr (r, s1)" and "stock_nonneg s" and "0 \<le> req_quantity rq"
  shows "stock_nonneg s1"
proof -
  from reserve_tx_success [OF assms(1)] obtain b where
    le: "req_quantity rq \<le> quantityRemaining b"
    and bs: "bags s1 = AList.update (req_bagId rq)
             (b\<lparr>quantityRemaining := quantityRemaining b - req_quantity rq,
                isSoldOut := (quantityRemaining b - req_quantity rq \<le> 0)\<rparr>) (bags s)"
    and os: "orders s1 = orders s @ [(newOrderId rq, res_order r)]"
    and q: "Order.quantity (res_order r) = req_quantity rq"
    by blast
  from assms(2) le have "list_all (\<lambda>kv. 0 \<le> quantityRemaining (snd kv)) (bags s1)"
    by (simp add: bs stock_nonneg_def list_all_update)
  moreover from assms(2,3) q have "list_all (\<lambda>kv. 0 \<le> Order.quantity (snd kv)) (orders s1)"
    by (simp add: os stock_nonneg_def)
  ultimately show ?thesis by (simp add: stock_nonneg_def)
qed

lemma checkout_failed_nonneg:
  "stock_nonneg s \<Longrightarrow> stock_nonneg (snd (checkout_failed cascade oid s))"
  by (auto simp: checkout_failed_def dest: order_delete_nonneg split: sum.splits)

lemma payment_create_nonneg:
  "payment_create pid p s = Inr s' \<Longrightarrow> stock_nonneg s \<Longrightarrow> stock_nonneg s'"
  by (auto simp: payment_create_def stock_nonneg_def split: if_splits sum.splits)

lemma create_order_nonneg:
  assumes "stock_nonneg s" and "0 \<le> req_quantity rq"
  shows "stock_nonneg (snd (create_order cascade url gw rq s))"
proof (cases "reserve_tx rq s")
  case (Inl e)
  with assms(1) show ?thesis by (simp add: create_order_def)
next
  case (Inr x)
  obtain r s1 where x: "x = (r, s1)" by (cases x)
  from reserve_tx_nonneg [OF Inr [unfolded x] assms] have s1: "stock_nonneg s1" .
  show ?thesis
    using s1 checkout_failed_nonneg [OF s1, of cascade "newOrderId rq"]
    by (auto simp: create_order_def Inr x dest: payment_create_nonneg split: sum.splits)
qed

lemma cancel_order_nonneg:
  assumes "stock_nonneg s"
  shows "stock_nonneg (snd (cancel_order sub oid reason now s))"
proof (cases "map_of (orders s) oid")
  case None
  with assms show ?thesis by (simp add: cancel_order_def)
next
  case (Some ord)
  have q: "0 \<le> Order.quantity ord" by (rule order_quantity_nonneg [OF assms Some])
  have "stock_nonneg s'" if "transaction
                    [update_order oid
                       (\<lambda>r. r\<lparr>Order.status := Cancelled,
                               cancelledAt := Some now,
                               cancellationReason :=
                                 (case reason of None \<Rightarrow> cancellationReason r | Some x \<Rightarrow> Some x),
                               cancelledById := Some sub\<rparr>),
                     release_stock (Order.bagId ord) (Order.quantity ord)] s = Inr s'" for s'
    using assms that
    by (rule transaction_nonneg [rotated])
       (auto dest: update_order_nonneg release_stock_nonneg [OF _ _ q])
  with assms Some show ?thesis
    by (auto simp: cancel_order_def split: sum.splits)
qed

lemma business_order_status_nonneg:
  "stock_nonneg s \<Longrightarrow> stock_nonneg (snd (business_order_status sub oid st now s))"
  by (auto simp: business_order_status_def dest!: update_order_nonneg split: option.splits sum.splits)

lemma scan_order_nonneg:
  "stock_nonneg s \<Longrightarrow> stock_nonneg (snd (scan_order sub code now s))"
  by (auto simp: scan_order_def dest!: update_order_nonneg split: option.splits sum.splits prod.splits)

lemma yoco_success_nonneg:
  assumes "stock_nonneg s"
  shows "stock_nonneg (snd (yoco_success gw oidp now s))"
proof -
  have "stock_nonneg s'" if "transaction (success_writes oid ord pid cs now) s = Inr s'" for oid ord pid cs s'
    using assms that
    by (rule transaction_nonneg [rotated])
       (auto simp: success_writes_def dest: update_order_nonneg update_payment_nonneg credit_loyalty_nonneg)
  with assms show ?thesis
    by (auto simp: yoco_success_def split: option.splits sum.splits prod.splits)
qed

lemma restoreInventory_nonneg:
  assumes "restoreInventory oid s = Inr s'" and "stock_nonneg s"
  shows "stock_nonneg s'"
proof (cases "map_of (orders s) oid")
  case None
  with assms show ?thesis by (simp add: restoreInventory_def)
next
  case (Some ord)
  with assms(1) have "release_stock (Order.bagId ord) (Order.quantity ord) s = Inr s'"
    by (simp add: restoreInventory_def)
  then show ?thesis
    using assms(2) order_quantity_nonneg [OF assms(2) Some] by (rule release_stock_nonneg)
qed

lemma restore_and_delete_nonneg:
  "stock_nonneg s \<Longrightarrow> stock_nonneg (restore_and_delete cascade oidp s)"
  by (auto simp: restore_and_delete_def dest: restoreInventory_nonneg order_delete_nonneg
        split: option.splits sum.splits)

lemma payment_succeeded_nonneg:
  assumes "payment_succeeded p now s = Inr s'" and "stock_nonneg s"
  shows "stock_nonneg s'"
proof -
  have "stock_nonneg s'" if "transaction
                 [update_order k1 (\<lambda>r. r\<lparr>Order.status := Paid\<rparr>),
                  update_payment k2 f,
                  credit_loyalty k3 q] s = Inr s'" for k1 k2 k3 f q
    using assms(2) that
    by (rule transaction_nonneg [rotated])
       (auto dest: update_order_nonneg update_payment_nonneg credit_loyalty_nonneg)
  with assms show ?thesis
    by (auto simp: payment_succeeded_def split: option.splits prod.splits)
qed

lemma payment_failed_nonneg:
  assumes "payment_failed cascade p now s = Inr s'" and "stock_nonneg s"
  shows "stock_nonneg s'"
proof -
  have "stock_nonneg s'" if "transaction
                 [release_stock k1 q,
                  update_payment k2 f,
                  order_delete cascade k3] s = Inr s'" and "0 \<le> q" for k1 k2 k3 f q
    using assms(2) that(1)
    by (rule transaction_nonneg [rotated])
       (auto dest: release_stock_nonneg [OF _ _ that(2)] update_payment_nonneg order_delete_nonneg)
  with assms show ?thesis
    by (auto simp: payment_failed_def dest: order_quantity_nonneg split: option.splits prod.splits)
qed

lemma refund_succeeded_nonneg:
  assumes "refund_succeeded p now s = Inr s'" and "stock_nonneg s"
  shows "stock_nonneg s'"
proof -
  have "stock_nonneg s'" if "transaction
                 [release_stock k1 q,
                  mark_refunded p k2 now,
                  update_order k3 (\<lambda>r. r\<lparr>Order.status := Refunded\<rparr>)] s = Inr s'" and "0 \<le> q" for k1 k2 k3 q
    using assms(2) that(1)
    by (rule transaction_nonneg [rotated])
       (auto dest: release_stock_nonneg [OF _ _ that(2)] mark_refunded_nonneg update_order_nonneg)
  with assms show ?thesis
    by (auto simp: refund_succeeded_def dest: order_quantity_nonneg split: option.splits prod.splits)
qed

lemma webhook_dispatch_nonneg:
  "stock_nonneg s \<Longrightarrow> stock_nonneg (snd (webhook_dispatch cascade ev now s))"
  by (auto simp: webhook_dispatch_def
        dest: payment_succeeded_nonneg payment_failed_nonneg refund_succeeded_nonneg
        split: sum.splits option.splits if_splits)

lemma apply_operation_nonneg:
  "stock_nonneg s \<Longrightarrow> validated x \<Longrightarrow> stock_nonneg (apply_operation cascade x s)"
  by (cases x)
     (simp_all add: create_order_nonneg cancel_order_nonneg business_order_status_nonneg
        scan_order_nonneg yoco_success_nonneg restore_and_delete_nonneg webhook_dispatch_nonneg
        yoco_cancel_def yoco_failure_def)

lemma stock_never_negative:
  "stock_nonneg s \<Longrightarrow> list_all validated xs \<Longrightarrow> stock_nonneg (run cascade xs s)"
  by (induction xs arbitrary: s) (simp_all add: apply_operation_nonneg)

text \<open>
  Claim C2. The claim is \<open>0 \<le> quantityRemaining \<le> quantityTotal\<close> after every sequence
  of operations. The lower bound holds (\<open>stock_never_negative\<close> above), but
  the redirect handlers release stock for whatever order id they are given without
  looking at its status. On the example listing of two bags: the order reserves one
  (1 of 2 left), the buyer cancels it (2 of 2), and the browser then reaches the cancel
  redirect for the same order, which releases again: 3 remaining of a total of 2,
  whether or not the order's deletion cascades.
\<close>

theorem double_release_exceeds_total:
  "map_option (\<lambda>b. (quantityRemaining b, quantityTotal b)) (map_of (bags db0) ''b1'') = Some (2, 2)
 \<and> map_option (\<lambda>b. (quantityRemaining b, quantityTotal b)) (map_of (bags db_pending) ''b1'') = Some (1, 2)
 \<and> map_option (\<lambda>b. (quantityRemaining b, quantityTotal b)) (map_of (bags db_cancelled) ''b1'') = Some (2, 2)
 \<and> map_option (\<lambda>b. (quantityRemaining b, quantityTotal b))
       (map_of (bags (snd (yoco_cancel True (Some ''o1'') db_cancelled))) ''b1'') = Some (3, 2)
 \<and> map_option (\<lambda>b. (quantityRemaining b, quantityTotal b))
       (map_of (bags (snd (yoco_cancel False (Some ''o1'') db_cancelled))) ''b1'') = Some (3, 2)
 \<and> map_option (\<lambda>b. (quantityRemaining b, quantityTotal b))
       (map_of (bags (run True [CreateOrder ''http://h'' gw_ok rq0,
                                BuyerCancel ''u1'' ''o1'' None 155,
                                RedirectCancel (Some ''o1'')] db0)) ''b1'') = Some (3, 2)"
  by code_simp

section \<open>Release on the way to a failure state\<close>

lemma business_order_status_keeps_bags:
  "bags (snd (business_order_status sub oid st now s)) = bags s"
  by (auto simp: business_order_status_def update_order_def split: option.splits sum.splits)

text \<open>
  Claim C4. Every transition from pending or paid to cancelled or refunded should
  release the reserved quantity exactly once. The buyer's cancel does; the business-side
  status change to ``cancelled'' writes the order only. On the example store the
  restaurant owner cancels the pending order: the order becomes cancelled and the
  listing still has 1 of 2 remaining, so the reserved bag is released zero times.
\<close>

theorem business_cancel_releases_nothing:
  "map_option Order.status (map_of (orders db_pending) ''o1'') = Some Pending
 \<and> map_option quantityRemaining (map_of (bags db_pending) ''b1'') = Some 1
 \<and> fst (business_order_status ''w1'' ''o1'' ''cancelled'' 156 db_pending) = Inr (OrderData 200 ''o1'' Cancelled)
 \<and> map_option Order.status
       (map_of (orders (snd (business_order_status ''w1'' ''o1'' ''cancelled'' 156 db_pending))) ''o1'') = Some Cancelled
 \<and> map_option quantityRemaining
       (map_of (bags (snd (business_order_status ''w1'' ''o1'' ''cancelled'' 156 db_pending))) ''b1'') = Some 1"
  by code_simp

section \<open>The success redirect\<close>



text \<open>
  Any provider status other than the literal \<^verbatim>\<open>successful\<close> leaves the store as it is
  and sends the buyer to the pending link; that includes \<^verbatim>\<open>succeeded\<close> and
  \<^verbatim>\<open>completed\<close>, the success values of the adapter's own \<^verbatim>\<open>YocoPaymentResponse\<close> type.
\<close>

lemma yoco_success_other_status:
  assumes "oid \<noteq> []" and "map_of (orders s) oid = Some ord"
    and "findFirst (\<lambda>p. Payment.orderId p = oid) (payments s) = Some (pid, pay)"
    and "stripePaymentIntentId pay = Some c" and "c \<noteq> []"
    and "gw c = Inr cs" and "provider_status cs \<noteq> ''successful''"
  shows "yoco_success gw (Some oid) now s = (Inr (Redirect (PaymentPendingLink oid)), s)"
  using assms by (simp add: yoco_success_def)





section \<open>The webhook's signature check\<close>

text \<open>
  Called with its five arguments, \<open>verifyWebhookSignature\<close> accepts a signature made by
  the documented scheme (base64 text holds neither a space nor a comma).
\<close>

lemma split_on_absent: "d \<notin> set x \<Longrightarrow> split_on d x = [x]"
  by (induction x) auto

lemma split_on_prefix: "d \<notin> set a \<Longrightarrow> split_on d (a @ d # b) = a # split_on d b"
  by (induction a) auto

lemma second_field_v1: "CHR '','' \<notin> set sg \<Longrightarrow> second_field (''v1,'' @ sg) = Some sg"
  using split_on_prefix [of "CHR '',''" "''v1''" sg]
  by (simp add: second_field_def split_on_absent)

lemma verifyWebhookSignature_accepts:
  assumes "sg = hmac (b64 (replace_first ''whsec_'' [] secret)) (wid @ ''.'' @ ts @ ''.'' @ body)"
    and "CHR '' '' \<notin> set sg" and "CHR '','' \<notin> set sg"
  shows "verifyWebhookSignature hmac b64 (Some body) (Some (''v1,'' @ sg)) (Some wid) (Some ts) (Some secret)
           = Inr True"
proof -
  have "split_on CHR '' '' (''v1,'' @ sg) = [''v1,'' @ sg]"
    using assms(2) by (intro split_on_absent) simp
  then show ?thesis
    using assms(1) second_field_v1 [OF assms(3)]
    by (simp add: verifyWebhookSignature_def template_def Let_def)
qed

lemma webhook_missing_signature:
  "yoco_webhook hmac b64 cascade None (Some (k # ks)) body ev now s =
     (Inr (Json 401 ''Missing signature''), s)"
  by (simp add: yoco_webhook_def)

text \<open>
  Claim C6. A webhook whose signature does not verify should be answered 401 before
  any write, and one signed by the documented scheme should get through. The route
  passes three arguments to the five-parameter \<open>verifyWebhookSignature\<close>, so inside it
  \<open>webhookSecret\<close> is \<^verbatim>\<open>undefined\<close> and \<^verbatim>\<open>webhookSecret.replace\<close> throws: for every
  request that carries a signature, valid or not, with a secret configured, the handler
  ends in a TypeError. The store is untouched, but no such request is ever answered 401
  and none is ever accepted.
\<close>

theorem webhook_signature_check_throws:
  "yoco_webhook hmac b64 cascade (Some (c # cs)) (Some (k # ks)) body ev now s =
     (Inl (TypeError ''Cannot read properties of undefined (reading 'replace')''), s)"
  by (simp add: yoco_webhook_def verifyWebhookSignature_def)

section \<open>Cancel signals after the order is finalised\<close>

text \<open>The buyer's cancel is guarded: outside pending and paid it answers 400 and writes nothing.\<close>

lemma cancel_order_finalized:
  assumes "map_of (orders s) oid = Some ord" and "userId ord = sub"
    and "Order.status ord \<noteq> Pending" and "Order.status ord \<noteq> Paid"
  shows "cancel_order sub oid reason now s = (Inr (Json 400 ''Order cannot be cancelled''), s)"
  using assms by (simp add: cancel_order_def)

text \<open>
  Claim C7. A cancel signal for an order that is already finalised should be rejected
  and leave the order, its payment and the listing unchanged. The cancel redirect has
  no guard on the order's status. On the store where the order has been paid and
  collected (1 of 2 remaining), the cancel redirect answers with the ``cancelled'' link
  like any other, releases the bag again (2 remaining) and, when deletion cascades,
  removes the collected order and its payment.
\<close>

theorem redirect_cancel_after_pickup:
  "map_option Order.status (map_of (orders db_collected) ''o1'') = Some Collected
 \<and> map_option quantityRemaining (map_of (bags db_collected) ''b1'') = Some 1
 \<and> fst (yoco_cancel True (Some ''o1'') db_collected) = Inr (Redirect PaymentCancelledLink)
 \<and> map_option quantityRemaining
       (map_of (bags (snd (yoco_cancel True (Some ''o1'') db_collected))) ''b1'') = Some 2
 \<and> map_of (orders (snd (yoco_cancel True (Some ''o1'') db_collected))) ''o1'' = None
 \<and> map_of (payments (snd (yoco_cancel True (Some ''o1'') db_collected))) ''p1'' = None
 \<and> fst (yoco_cancel False (Some ''o1'') db_collected) = Inr (Redirect PaymentCancelledLink)
 \<and> map_option quantityRemaining
       (map_of (bags (snd (yoco_cancel False (Some ''o1'') db_collected))) ''b1'') = Some 2"
  by code_simp

section \<open>Pickup verification\<close>

text \<open>
  Claim C9. For a presenter who owns a restaurant and presents a code: the scan answers
  404 when no order has the code, 403 when the order belongs to another restaurant, and
  400 when the order is neither paid nor ready, each time leaving the store unchanged.
  Otherwise the order becomes collected (the code's name for the redeemed state) with
  the scan time stamped, nothing else changes, and a second scan of the same code is
  answered 400. Primary keys of the order table are taken to be distinct.
\<close>

theorem scan_order_spec:
  assumes code: "qr \<noteq> []" and rest: "restaurant_of_owner sub s = Some (rid, rest)"
  shows
   "(findFirst (\<lambda>r. qrCode r = qr) (orders s) = None \<longrightarrow>
       scan_order sub (Some qr) now s = (Inr (Json 404 ''Invalid QR code''), s))
  \<and> (\<forall>oid ord. findFirst (\<lambda>r. qrCode r = qr) (orders s) = Some (oid, ord) \<longrightarrow>
       (Order.restaurantId ord \<noteq> rid \<longrightarrow>
          scan_order sub (Some qr) now s = (Inr (Json 403 ''Order belongs to another restaurant''), s))
     \<and> (Order.restaurantId ord = rid \<and> Order.status ord \<noteq> Paid \<and> Order.status ord \<noteq> Ready \<longrightarrow>
          scan_order sub (Some qr) now s =
            (Inr (Json 400 (''Order cannot be collected (status: '' @ status_name (Order.status ord) @ '')'')), s))
     \<and> (Order.restaurantId ord = rid \<and> (Order.status ord = Paid \<or> Order.status ord = Ready)
          \<and> distinct (map fst (orders s)) \<longrightarrow>
          (\<exists>s'. scan_order sub (Some qr) now s = (Inr (OrderData 200 oid Collected), s')
             \<and> map_of (orders s') oid = Some (ord\<lparr>Order.status := Collected, qrScannedAt := Some now\<rparr>)
             \<and> bags s' = bags s \<and> payments s' = payments s \<and> users s' = users s
             \<and> scan_order sub (Some qr) later s' =
                 (Inr (Json 400 ''Order cannot be collected (status: collected)''), s'))))"
proof (intro conjI allI impI)
  assume "findFirst (\<lambda>r. qrCode r = qr) (orders s) = None"
  with code rest show "scan_order sub (Some qr) now s = (Inr (Json 404 ''Invalid QR code''), s)"
    by (simp add: scan_order_def)
next
  fix oid ord
  assume "findFirst (\<lambda>r. qrCode r = qr) (orders s) = Some (oid, ord)" "Order.restaurantId ord \<noteq> rid"
  with code rest show "scan_order sub (Some qr) now s = (Inr (Json 403 ''Order belongs to another restaurant''), s)"
    by (simp add: scan_order_def)
next
  fix oid ord
  assume "findFirst (\<lambda>r. qrCode r = qr) (orders s) = Some (oid, ord)"
    "Order.restaurantId ord = rid \<and> Order.status ord \<noteq> Paid \<and> Order.status ord \<noteq> Ready"
  with code rest show "scan_order sub (Some qr) now s =
            (Inr (Json 400 (''Order cannot be collected (status: '' @ status_name (Order.status ord) @ '')'')), s)"
    by (simp add: scan_order_def)
next
  fix oid ord
  assume found: "findFirst (\<lambda>r. qrCode r = qr) (orders s) = Some (oid, ord)"
    and ok: "Order.restaurantId ord = rid \<and> (Order.status ord = Paid \<or> Order.status ord = Ready)
          \<and> distinct (map fst (orders s))"
  define ord' where "ord' = ord\<lparr>Order.status := Collected, qrScannedAt := Some now\<rparr>"
  define s' where "s' = s\<lparr>orders := AList.update oid ord' (orders s)\<rparr>"
  from ok have key: "map_of (orders s) oid = Some ord"
    using findFirst_key [OF found] by simp
  have qr: "qrCode ord = qr" using findFirst_sat [OF found] by simp
  have first: "scan_order sub (Some qr) now s = (Inr (OrderData 200 oid Collected), s')"
    using code rest found ok key
    by (auto simp: scan_order_def update_order_def update_row_def s'_def ord'_def)
  have found': "findFirst (\<lambda>r. qrCode r = qr) (orders s') = Some (oid, ord')"
    using findFirst_update [OF found key, of ord'] qr by (simp add: s'_def ord'_def)
  have rest': "restaurant_of_owner sub s' = Some (rid, rest)"
    using rest by (simp add: restaurant_of_owner_def s'_def)
  have second: "scan_order sub (Some qr) later s' =
                 (Inr (Json 400 ''Order cannot be collected (status: collected)''), s')"
    using code rest' found' ok by (simp add: scan_order_def ord'_def)
  have "map_of (orders s') oid = Some (ord\<lparr>Order.status := Collected, qrScannedAt := Some now\<rparr>)"
    by (simp add: s'_def ord'_def update_conv')
  moreover have "bags s' = bags s \<and> payments s' = payments s \<and> users s' = users s"
    by (simp add: s'_def)
  ultimately show "\<exists>s'. scan_order sub (Some qr) now s = (Inr (OrderData 200 oid Collected), s')
             \<and> map_of (orders s') oid = Some (ord\<lparr>Order.status := Collected, qrScannedAt := Some now\<rparr>)
             \<and> bags s' = bags s \<and> payments s' = payments s \<and> users s' = users s
             \<and> scan_order sub (Some qr) later s' =
                 (Inr (Json 400 ''Order cannot be collected (status: collected)''), s')"
    using first second by blast
qed

theorem scan_order_spec_witness:
  "scan_order ''w1'' (Some ''nope'') 170 db_paid = (Inr (Json 404 ''Invalid QR code''), db_paid)
 \<and> scan_order ''w2'' (Some ''SAVR-x'') 170 db_paid
      = (Inr (Json 403 ''Order belongs to another restaurant''), db_paid)
 \<and> scan_order ''w1'' (Some ''SAVR-x'') 170 db_pending
      = (Inr (Json 400 ''Order cannot be collected (status: pending)''), db_pending)
 \<and> (\<exists>s'. scan_order ''w1'' (Some ''SAVR-x'') 170 db_paid = (Inr (OrderData 200 ''o1'' Collected), s')
        \<and> map_of (orders s') ''o1'' = Some (order1\<lparr>Order.status := Collected, qrScannedAt := Some 170\<rparr>)
        \<and> bags s' = bags db_paid \<and> payments s' = payments db_paid \<and> users s' = users db_paid
        \<and> scan_order ''w1'' (Some ''SAVR-x'') 171 s'
            = (Inr (Json 400 ''Order cannot be collected (status: collected)''), s'))"
proof -
  have code: "''SAVR-x'' \<noteq> []" "''nope'' \<noteq> []" by simp_all
  have r1: "restaurant_of_owner ''w1'' db_paid = Some (''r1'', \<lparr>ownerId = ''w1'', name = ''Rest''\<rparr>)"
    and r1': "restaurant_of_owner ''w1'' db_pending = Some (''r1'', \<lparr>ownerId = ''w1'', name = ''Rest''\<rparr>)"
    and r2: "restaurant_of_owner ''w2'' db_paid = Some (''r2'', \<lparr>ownerId = ''w2'', name = ''Other''\<rparr>)"
    by (simp_all add: restaurant_of_owner_def findFirst_def db_paid_eq db_pending_eq db0_def)
  have none: "findFirst (\<lambda>r. qrCode r = ''nope'') (orders db_paid) = None"
    by (simp add: db_paid_eq findFirst_def order1_def)
  have paid: "findFirst (\<lambda>r. qrCode r = ''SAVR-x'') (orders db_paid) = Some (''o1'', order1\<lparr>Order.status := Paid\<rparr>)"
    by (simp add: db_paid_eq findFirst_def order1_def)
  have pend: "findFirst (\<lambda>r. qrCode r = ''SAVR-x'') (orders db_pending) = Some (''o1'', order1)"
    by (simp add: db_pending_eq findFirst_def order1_def)
  have other: "Order.restaurantId (order1\<lparr>Order.status := Paid\<rparr>) \<noteq> ''r2''"
    by (simp add: order1_def)
  have bad: "Order.restaurantId order1 = ''r1'' \<and> Order.status order1 \<noteq> Paid \<and> Order.status order1 \<noteq> Ready"
    by (simp add: order1_def)
  have good: "Order.restaurantId (order1\<lparr>Order.status := Paid\<rparr>) = ''r1''
      \<and> (Order.status (order1\<lparr>Order.status := Paid\<rparr>) = Paid \<or> Order.status (order1\<lparr>Order.status := Paid\<rparr>) = Ready)
      \<and> distinct (map fst (orders db_paid))"
    by (simp add: order1_def db_paid_eq)
  note a = scan_order_spec [OF code(2) r1, THEN conjunct1, THEN mp, OF none]
  note b = scan_order_spec [OF code(1) r2, THEN conjunct2, THEN spec, THEN spec, THEN mp, OF paid,
              THEN conjunct1, THEN mp, OF other]
  note c = scan_order_spec [OF code(1) r1', THEN conjunct2, THEN spec, THEN spec, THEN mp, OF pend,
              THEN conjunct2, THEN conjunct1, THEN mp, OF bad]
  note d = scan_order_spec [OF code(1) r1, THEN conjunct2, THEN spec, THEN spec, THEN mp, OF paid,
              THEN conjunct2, THEN conjunct2, THEN mp, OF good]
  have c': "scan_order ''w1'' (Some ''SAVR-x'') 170 db_pending
      = (Inr (Json 400 ''Order cannot be collected (status: pending)''), db_pending)"
    using c [of 170] by (simp add: order1_def)
  have d': "\<exists>s'. scan_order ''w1'' (Some ''SAVR-x'') 170 db_paid = (Inr (OrderData 200 ''o1'' Collected), s')
        \<and> map_of (orders s') ''o1'' = Some (order1\<lparr>Order.status := Collected, qrScannedAt := Some 170\<rparr>)
        \<and> bags s' = bags db_paid \<and> payments s' = payments db_paid \<and> users s' = users db_paid
        \<and> scan_order ''w1'' (Some ''SAVR-x'') 171 s'
            = (Inr (Json 400 ''Order cannot be collected (status: collected)''), s')"
    using d [of 170 171] by simp
  from a b c' d' show ?thesis by blast
qed


end
